theory Spec2Isabelle
  imports Main "HOL-Library.Word"
begin

unbundle bit_operations_syntax

section \<open>Basic types and constants\<close>

type_synonym byte = "8 word"
type_synonym u32 = "32 word"
type_synonym size_t = "64 word"

text \<open>
  Modelled from the spec: the constants \<open>TOX_PUBLIC_KEY_SIZE\<close> and \<open>TOX_ADDRESS_SIZE\<close>
  come from the transport's header \<open>tox/tox.h\<close>, which is not part of the sources.
  The specification fixes them: a 32-byte public key and a 38-byte address.
\<close>

definition TOX_PUBLIC_KEY_SIZE :: nat where
  "TOX_PUBLIC_KEY_SIZE = 32"

definition TOX_ADDRESS_SIZE :: nat where
  "TOX_ADDRESS_SIZE = 38"

definition TOX_CLIENT_ID_SIZE :: nat where
  "TOX_CLIENT_ID_SIZE = TOX_PUBLIC_KEY_SIZE"

definition TOX_FRIEND_ADDRESS_SIZE :: nat where
  "TOX_FRIEND_ADDRESS_SIZE = TOX_ADDRESS_SIZE"

section \<open>Hex codec: \<open>id2str\<close> and \<open>str2id\<close>\<close>

text \<open>The digit table \<open>hex[]\<close> of \<open>id2str\<close> in ratox.c.\<close>

definition hex :: string where
  "hex = ''0123456789ABCDEF''"

text \<open>The digit table \<open>hex[]\<close> of \<open>id2str\<close> in ratatox.c.\<close>

definition hex_ratatox :: string where
  "hex_ratatox = ''0123456789abcdef''"

text \<open>
  One pass of the loop body of \<open>id2str\<close>:
  \<open>*idstr++ = hex[(id[i] >> 4) & 0xf]; *idstr++ = hex[id[i] & 0xf];\<close>
\<close>

definition id2str_byte :: "string \<Rightarrow> byte \<Rightarrow> string" where
  "id2str_byte tbl b =
     [tbl ! unat (drop_bit 4 b AND 0xf), tbl ! unat (b AND 0xf)]"

text \<open>
  The loop \<open>for (i = 0; i < TOX_CLIENT_ID_SIZE; i++)\<close> over the key array; the
  terminating NUL is the end of the HOL string. The key arrays of the program are
  declared \<open>uint8_t id[TOX_CLIENT_ID_SIZE]\<close>, so the loop reads exactly the
  array.
\<close>

primrec id2str_loop :: "string \<Rightarrow> byte list \<Rightarrow> string" where
  "id2str_loop tbl [] = []"
| "id2str_loop tbl (b # bs) = id2str_byte tbl b @ id2str_loop tbl bs"

definition id2str :: "byte list \<Rightarrow> string" where
  "id2str ident = id2str_loop hex (take TOX_CLIENT_ID_SIZE ident)"

definition id2str_ratatox :: "byte list \<Rightarrow> string" where
  "id2str_ratatox ident = id2str_loop hex_ratatox (take TOX_CLIENT_ID_SIZE ident)"

text \<open>
  \<open>sscanf(p, "%2hhx", &id[i])\<close>. The conversion skips white space, then reads an
  optionally signed hexadecimal number of at most two characters (the field width
  counts the sign and a \<open>0x\<close> prefix), and stores it in an unsigned char. It
  stores nothing when no digit was read. A field that is exactly \<open>0x\<close> is
  read as zero, as glibc does.
\<close>

definition isspace :: "char \<Rightarrow> bool" where
  "isspace c = (c \<in> set [CHR '' '', CHR 0x09, CHR 0x0A, CHR 0x0B, CHR 0x0C, CHR 0x0D])"

definition hexdigit :: "char \<Rightarrow> byte option" where
  "hexdigit c =
     (let k = of_char c :: nat in
      if of_char CHR ''0'' \<le> k \<and> k \<le> of_char CHR ''9'' then Some (of_nat (k - of_char CHR ''0''))
      else if of_char CHR ''a'' \<le> k \<and> k \<le> of_char CHR ''f'' then Some (of_nat (k - of_char CHR ''a'' + 10))
      else if of_char CHR ''A'' \<le> k \<and> k \<le> of_char CHR ''F'' then Some (of_nat (k - of_char CHR ''A'' + 10))
      else None)"

fun scan_2hhx :: "string \<Rightarrow> byte option" where
  "scan_2hhx [] = None"
| "scan_2hhx [c] =
     (if c = CHR ''+'' \<or> c = CHR ''-'' then None else hexdigit c)"
| "scan_2hhx (c # d # rest) =
     (if c = CHR ''+'' then hexdigit d
      else if c = CHR ''-'' then map_option (\<lambda>v. - v) (hexdigit d)
      else if c = CHR ''0'' \<and> (d = CHR ''x'' \<or> d = CHR ''X'') then Some 0
      else (case hexdigit c of
              None \<Rightarrow> None
            | Some hi \<Rightarrow>
                (case hexdigit d of
                   None \<Rightarrow> Some hi
                 | Some lo \<Rightarrow> Some (16 * hi + lo))))"

definition sscanf_2hhx :: "string \<Rightarrow> byte option" where
  "sscanf_2hhx p = scan_2hhx (dropWhile isspace p)"

datatype error =
    Fatal string
  | NullDeref
  | OutOfBounds

text \<open>
  The loop of \<open>str2id\<close>: \<open>for (i = 0; i < len; ++i, p += 2) sscanf(p, "%2hhx", &id[i])\<close>.
  The source leaves it to the caller that \<open>id\<close> is big enough; a store past
  the end of the array is the error \<open>OutOfBounds\<close> here. A failed conversion
  leaves \<open>id[i]\<close> as it was.
\<close>

fun str2id_loop :: "nat \<Rightarrow> nat \<Rightarrow> string \<Rightarrow> byte list \<Rightarrow> error + byte list" where
  "str2id_loop 0 i p ident = Inr ident"
| "str2id_loop (Suc k) i p ident =
     (if length ident \<le> i then Inl OutOfBounds
      else str2id_loop k (Suc i) (drop 2 p)
             (case sscanf_2hhx p of None \<Rightarrow> ident | Some v \<Rightarrow> ident[i := v]))"

definition str2id :: "string \<Rightarrow> byte list \<Rightarrow> error + byte list" where
  "str2id idstr ident = str2id_loop (length idstr div 2) 0 idstr ident"

text \<open>The all-lowercase form of a string (\<open>tolower\<close> on every character).\<close>

definition tolower :: "char \<Rightarrow> char" where
  "tolower c =
     (case map_of (zip ''ABCDEFGHIJKLMNOPQRSTUVWXYZ'' ''abcdefghijklmnopqrstuvwxyz'') c of
        None \<Rightarrow> c
      | Some d \<Rightarrow> d)"

section \<open>Operating-system results, files and effects\<close>

datatype errno = EINTR | EWOULDBLOCK | ENOENT | EEXIST | ENXIO | EPIPE | EBADF | EIO

text \<open>The value a system call returned and \<open>errno\<close> as it stands after the call.\<close>

record sysres =
  sys_rv :: int
  sys_errno :: errno

datatype oflag = O_RDONLY | O_WRONLY | O_NONBLOCK | O_TRUNC | O_CREAT | O_APPEND

datatype ftype = NONE | FIFO | STATIC | FOLDER

record struct_file =
  ftype :: ftype
  fname :: string
  fflags :: "oflag list"

definition IN :: nat where "IN = 0"
definition OUT :: nat where "OUT = 1"
definition ERR :: nat where "ERR = 2"

definition gfiles :: "struct_file list" where
  "gfiles =
     [\<lparr>ftype = FIFO, fname = ''in'', fflags = [O_RDONLY, O_NONBLOCK]\<rparr>,
      \<lparr>ftype = NONE, fname = ''out'', fflags = [O_WRONLY, O_TRUNC, O_CREAT]\<rparr>,
      \<lparr>ftype = STATIC, fname = ''err'', fflags = [O_WRONLY, O_TRUNC, O_CREAT]\<rparr>]"

definition NAME :: nat where "NAME = 0"
definition STATUS :: nat where "STATUS = 1"
definition STATE :: nat where "STATE = 2"
definition REQUEST :: nat where "REQUEST = 3"
definition NOSPAM :: nat where "NOSPAM = 4"

definition FTEXT_IN :: nat where "FTEXT_IN = 0"
definition FCALL_IN :: nat where "FCALL_IN = 2"
definition FTEXT_OUT :: nat where "FTEXT_OUT = 3"
definition FREMOVE :: nat where "FREMOVE = 5"
definition FONLINE :: nat where "FONLINE = 6"
definition FNAME :: nat where "FNAME = 7"
definition FSTATUS :: nat where "FSTATUS = 8"
definition FSTATE :: nat where "FSTATE = 9"
definition FFILE_STATE :: nat where "FFILE_STATE = 10"

definition ffiles :: "struct_file list" where
  "ffiles =
     [\<lparr>ftype = FIFO, fname = ''text_in'', fflags = [O_RDONLY, O_NONBLOCK]\<rparr>,
      \<lparr>ftype = FIFO, fname = ''file_in'', fflags = [O_RDONLY, O_NONBLOCK]\<rparr>,
      \<lparr>ftype = FIFO, fname = ''call_in'', fflags = [O_RDONLY, O_NONBLOCK]\<rparr>,
      \<lparr>ftype = STATIC, fname = ''text_out'', fflags = [O_WRONLY, O_APPEND, O_CREAT]\<rparr>,
      \<lparr>ftype = FIFO, fname = ''file_out'', fflags = [O_WRONLY, O_NONBLOCK]\<rparr>,
      \<lparr>ftype = FIFO, fname = ''remove'', fflags = [O_RDONLY, O_NONBLOCK]\<rparr>,
      \<lparr>ftype = STATIC, fname = ''online'', fflags = [O_WRONLY, O_TRUNC, O_CREAT]\<rparr>,
      \<lparr>ftype = STATIC, fname = ''name'', fflags = [O_WRONLY, O_TRUNC, O_CREAT]\<rparr>,
      \<lparr>ftype = STATIC, fname = ''status'', fflags = [O_WRONLY, O_TRUNC, O_CREAT]\<rparr>,
      \<lparr>ftype = STATIC, fname = ''state'', fflags = [O_WRONLY, O_TRUNC, O_CREAT]\<rparr>,
      \<lparr>ftype = STATIC, fname = ''file_pending'', fflags = [O_WRONLY, O_TRUNC, O_CREAT]\<rparr>]"

text \<open>
  The user states of the transport, \<open>TOX_USER_STATUS_NONE\<close>, \<open>_AWAY\<close> and
  \<open>_BUSY\<close>, index the table \<open>ustate\<close>; ratox.c itself defines
  \<open>TOX_USER_STATUS_INVALID\<close> as 0.
\<close>

definition ustate :: "string list" where
  "ustate = [''none'', ''away'', ''busy'']"

definition TOX_USER_STATUS_INVALID :: nat where
  "TOX_USER_STATUS_INVALID = 0"

text \<open>The file controls of the transport; any other value takes the \<open>default\<close> branch.\<close>

datatype file_control =
    TOX_FILE_CONTROL_RESUME
  | TOX_FILE_CONTROL_PAUSE
  | TOX_FILE_CONTROL_CANCEL
  | TOX_FILE_CONTROL_other int

text \<open>
  Modelled from the spec: the connection statuses of the transport's header, which is
  not part of the sources; the specification numbers them 0 offline, 1 tcp, 2 udp.
\<close>

definition TOX_CONNECTION_NONE :: int where "TOX_CONNECTION_NONE = 0"
definition TOX_CONNECTION_TCP :: int where "TOX_CONNECTION_TCP = 1"
definition TOX_CONNECTION_UDP :: int where "TOX_CONNECTION_UDP = 2"

text \<open>An argument of a \<open>printf\<close>-style call, kept beside its format string.\<close>

datatype arg = AStr string | AInt int | AByte byte | AU32 u32

text \<open>
  The effects of the program on the file system, its log and the transport, in the
  order in which they happen. \<open>logmsg\<close> prefixes every line with the wall-clock
  time; the prefix is not part of the event.
\<close>

datatype event =
    Unlinkat int string
  | Close int
  | Mkfifoat int string
  | Openat int string "oflag list"
  | Ftruncate int
  | Lseek int
  | Dprintf int string "arg list"
  | Mkdir string
  | Opendir string
  | Open_savefile
  | Write_savefile int int
  | Fsync int
  | Logmsg string "arg list"
  | Weprintf string "arg list"
  | Tox_friend_add_norequest "byte list"
  | Tox_friend_add "byte list" string
  | Tox_friend_delete int
  | Tox_self_set_nospam u32
  | Tox_self_set_status nat
  | Tox_self_get_address
  | Tox_get_savedata
  | Tox_pass_encrypt
  | Tox_file_control u32 u32 file_control
  | Tox_file_send u32 "string option" int

text \<open>
  Modelled from the spec: \<open>eprintf\<close> and \<open>weprintf\<close> are declared in util.h,
  which is not part of the sources. The specification has structural errors logged and
  the daemon terminated: \<open>eprintf\<close> ends the process with its message,
  \<open>weprintf\<close> prints a warning and returns.
\<close>

definition eprintf :: "string \<Rightarrow> arg list \<Rightarrow> error + 'a" where
  "eprintf fmt args = Inl (Fatal fmt)"

section \<open>The FIFO primitive\<close>

definition fifoopen :: "sysres \<Rightarrow> int \<Rightarrow> struct_file \<Rightarrow> error + (int \<times> event list)" where
  "fifoopen opn dirfd f =
     (let fd = sys_rv opn in
      if fd < 0 \<and> sys_errno opn \<noteq> ENXIO then eprintf ''openat %s:'' [AStr (fname f)]
      else Inr (fd, [Openat dirfd (fname f) (fflags f)]))"

text \<open>The answers of the three system calls of one run of \<open>fiforeset\<close>.\<close>

record reset_env =
  re_unlinkat :: sysres
  re_mkfifoat :: sysres
  re_openat :: sysres

definition fiforeset :: "reset_env \<Rightarrow> int \<Rightarrow> int \<Rightarrow> struct_file \<Rightarrow> error + (int \<times> event list)" where
  "fiforeset env dirfd fd f =
     (if sys_rv (re_unlinkat env) < 0 \<and> sys_errno (re_unlinkat env) \<noteq> ENOENT
      then eprintf ''unlinkat %s:'' [AStr (fname f)]
      else if sys_rv (re_mkfifoat env) < 0 \<and> sys_errno (re_mkfifoat env) \<noteq> EEXIST
      then eprintf ''mkfifoat %s:'' [AStr (fname f)]
      else (case fifoopen (re_openat env) dirfd f of
              Inl e \<Rightarrow> Inl e
            | Inr (fd', evs) \<Rightarrow>
                Inr (fd', [Unlinkat dirfd (fname f)] @ (if fd \<noteq> - 1 then [Close fd] else [])
                          @ [Mkfifoat dirfd (fname f)] @ evs)))"

text \<open>
  What one call of \<open>read\<close> gives: the bytes available in the pipe (\<open>read\<close> returns
  at most \<open>sz\<close> of them; none is end of file), or \<open>-1\<close> with an \<open>errno\<close>.
\<close>

datatype read_result = RdData string | RdErr errno

text \<open>
  \<open>fiforead\<close> returns the value \<open>r\<close>, the bytes stored in \<open>buf\<close>, the
  descriptor now in \<open>*fd\<close> and the effects. Every pass of the \<open>again\<close> loop takes
  the next answer of \<open>read\<close>; the result is \<open>None\<close> when the answers run out
  while the loop is still retrying.
\<close>

fun fiforead :: "read_result list \<Rightarrow> reset_env \<Rightarrow> int \<Rightarrow> int \<Rightarrow> struct_file \<Rightarrow> nat
    \<Rightarrow> (error + (int \<times> string \<times> int \<times> event list)) option" where
  "fiforead [] env dirfd fd f sz = None"
| "fiforead (RdData d # rs) env dirfd fd f sz =
     (let r = int (length (take sz d)) in
      if r = 0 then
        (case fiforeset env dirfd fd f of
           Inl e \<Rightarrow> Some (Inl e)
         | Inr (fd', evs) \<Rightarrow> Some (Inr (0, [], fd', evs)))
      else Some (Inr (r, take sz d, fd, [])))"
| "fiforead (RdErr e # rs) env dirfd fd f sz =
     (if e = EINTR then fiforead rs env dirfd fd f sz
      else if e = EWOULDBLOCK then Some (Inr (- 1, [], fd, []))
      else Some (eprintf ''read %s:'' [AStr (fname f)]))"

section \<open>Friends, requests and the global state\<close>

record timespec =
  tv_sec :: int
  tv_nsec :: int


datatype tstate =
    TRANSFER_NONE
  | TRANSFER_INITIATED
  | TRANSFER_PENDING
  | TRANSFER_INPROGRESS
  | TRANSFER_PAUSED

text \<open>\<open>struct transfer\<close>; \<open>buf\<close> is \<open>None\<close> for the null pointer.\<close>

record transfer =
  tx_fnum :: byte
  tx_buf :: "string option"
  tx_chunksz :: int
  tx_n :: int
  tx_pendingbuf :: int
  tx_state :: tstate
  tx_lastblock :: timespec
  tx_cooldown :: int

text \<open>
  \<open>struct friend\<close>. The friend number is kept as its 32 bits: the program compares
  the \<open>int32_t\<close> field with the transport's \<open>uint32_t\<close> numbers, which C does on the
  bit patterns.
\<close>

record friend =
  f_name :: string
  f_num :: u32
  f_id :: "byte list"
  f_idstr :: string
  f_dirfd :: int
  f_fd :: "int list"
  f_tx :: transfer
  f_rxstate :: tstate

text \<open>\<open>struct request\<close>; \<open>msg\<close> is \<open>None\<close> for the null pointer.\<close>

record request =
  req_id :: "byte list"
  req_idstr :: string
  req_msg :: "string option"
  req_fd :: int

record slot =
  slot_name :: string
  outisfolder :: bool
  slot_dirfd :: int
  slot_fd :: "int list"

text \<open>The globals of ratox.c that the handlers touch, and the effects so far.\<close>

record world =
  gslots :: "slot list"
  idfd :: int
  friendhead :: "friend list"
  reqhead :: "request list"
  trace :: "event list"

definition emit :: "event list \<Rightarrow> world \<Rightarrow> world" where
  "emit evs w = w\<lparr>trace := trace w @ evs\<rparr>"

text \<open>
  \<open>TAILQ_FOREACH(f, &friendhead, entry) if (f->num == frnum) break;\<close>
  gives the first friend with the number, by its position, or the null pointer.
\<close>

primrec friend_index :: "u32 \<Rightarrow> friend list \<Rightarrow> nat option" where
  "friend_index frnum [] = None"
| "friend_index frnum (f # fs) =
     (if f_num f = frnum then Some 0 else map_option Suc (friend_index frnum fs))"

section \<open>The transfer engine\<close>





text \<open>
  The transport's header \<open>tox/tox.h\<close> is not part of the sources. The calls
  \<open>tox_file_send\<close> (eight arguments) and \<open>tox_file_control\<close> (five arguments) of
  ratox.c are those of the interface that declares the first with the result type
  \<open>uint32_t\<close> and the second with the result type \<open>bool\<close>. The program never
  stores these results: it compares the call with \<open>0\<close> directly, so the test
  \<open>tox_file_send(...) < 0\<close> is a comparison of an unsigned 32-bit value and the
  test \<open>tox_file_control(...) < 0\<close> one of the promoted values 0 and 1. The branches
  under these tests are kept below as the source has them.
\<close>
















section \<open>The connection-status callback\<close>

text \<open>A character array read as a C string: the characters before the first NUL.\<close>

definition cstr :: "string \<Rightarrow> string" where
  "cstr buf = takeWhile (\<lambda>c. c \<noteq> CHR 0x00) buf"

text \<open>
  What \<open>cbconnstatus\<close> gets from outside: the constant
  \<open>TOX_MAX_NAME_LENGTH\<close> of the transport's header, which is not part of the
  sources (the array \<open>name\<close> has one element more), the result of
  \<open>tox_friend_get_name_size\<close>, as stored in the \<open>int r\<close>, and the indeterminate
  contents of the local array \<open>name\<close>, which the call does not fill.
\<close>

record cs_env =
  cs_max_name :: nat
  cs_name_size :: int
  cs_name :: string

text \<open>The \<open>switch\<close> over the status; its cases have no \<open>break\<close>.\<close>

definition connstatus_log :: "string \<Rightarrow> int \<Rightarrow> event list" where
  "connstatus_log name status =
     (if status = TOX_CONNECTION_NONE then
        [Logmsg '': %s > %s\<newline>'' [AStr name, AStr ''Offline''],
         Logmsg '': %s > %s\<newline>'' [AStr name, AStr ''Online using TCP''],
         Logmsg '': %s > %s\<newline>'' [AStr name, AStr ''Online using UDP'']]
      else if status = TOX_CONNECTION_TCP then
        [Logmsg '': %s > %s\<newline>'' [AStr name, AStr ''Online using TCP''],
         Logmsg '': %s > %s\<newline>'' [AStr name, AStr ''Online using UDP'']]
      else if status = TOX_CONNECTION_UDP then
        [Logmsg '': %s > %s\<newline>'' [AStr name, AStr ''Online using UDP'']]
      else [])"

text \<open>
  The loop that removes the pending requests of the friend's key. \<open>fo\<close> is the
  pointer \<open>f\<close> the friend loop left: \<open>None\<close> is the null pointer, and the
  \<open>memcmp\<close> of the first pass reads through it.
\<close>

fun connstatus_requests ::
    "int \<Rightarrow> friend option \<Rightarrow> request list \<Rightarrow> error + (request list \<times> event list)" where
  "connstatus_requests outfd fo [] = Inr ([], [])"
| "connstatus_requests outfd None (req # rest) = Inl NullDeref"
| "connstatus_requests outfd (Some f) (req # rest) =
     (case connstatus_requests outfd (Some f) rest of
        Inl e \<Rightarrow> Inl e
      | Inr (kept, evs) \<Rightarrow>
          if take TOX_CLIENT_ID_SIZE (f_id f) \<noteq> take TOX_CLIENT_ID_SIZE (req_id req)
          then Inr (req # kept, evs)
          else Inr (kept, [Unlinkat outfd (req_idstr req), Close (req_fd req)] @ evs))"

definition cbconnstatus :: "cs_env \<Rightarrow> u32 \<Rightarrow> int \<Rightarrow> world \<Rightarrow> error + world" where
  "cbconnstatus env frnum status w =
     (let r = cs_name_size env in
      if r < 0 then
        Inr (emit [Weprintf ''Failed to get name for friend number %ld\<newline>'' [AInt (uint frnum)],
                   Weprintf ''Failed to get name for friend number %ld\<newline>'' [AInt r]] w)
      else if int (cs_max_name env) < r then Inl OutOfBounds
      else
        (let name = (if r = 0 then ''Anonymous'' else cstr ((cs_name env)[nat r := CHR 0x00]));
             fo = map_option (\<lambda>i. friendhead w ! i) (friend_index frnum (friendhead w));
             ev_online = (case fo of
                 None \<Rightarrow> []
               | Some f \<Rightarrow> [Ftruncate (f_fd f ! FONLINE), Lseek (f_fd f ! FONLINE),
                            Dprintf (f_fd f ! FONLINE) ''%d\<newline>'' [AInt status]])
         in case connstatus_requests (slot_fd (gslots w ! REQUEST) ! OUT) fo (reqhead w) of
              Inl e \<Rightarrow> Inl e
            | Inr (kept, evs) \<Rightarrow>
                Inr (emit (connstatus_log name status @ ev_online @ evs)
                       (w\<lparr>reqhead := kept\<rparr>))))"

section \<open>Creating a friend and saving the state\<close>

text \<open>
  What \<open>friendcreate\<close> gets from outside: the constants \<open>TOX_MAX_NAME_LENGTH\<close>
  and \<open>TOX_MAX_STATUS_MESSAGE_LENGTH\<close> of the transport's header, which is not part
  of the sources, whether \<open>calloc\<close> succeeded, the results
  of the transport's getters (the key is the contents of \<open>f->id\<close> after
  \<open>tox_friend_get_public_key\<close>, the status message the contents of the local array
  after \<open>tox_friend_get_status_message\<close>), and the answers of the system calls, those
  for the friend's files by their index in \<open>ffiles\<close>.
\<close>

record friend_env =
  fe_max_name :: nat
  fe_max_status :: nat
  fe_calloc :: bool
  fe_name_size :: size_t
  fe_public_key :: "byte list"
  fe_mkdir :: sysres
  fe_opendir :: bool
  fe_dirfd :: int
  fe_reset :: "nat \<Rightarrow> reset_env"
  fe_open :: "nat \<Rightarrow> sysres"
  fe_online :: int
  fe_status_size :: size_t
  fe_status :: string
  fe_state :: int

text \<open>The loop over \<open>ffiles\<close> of \<open>friendcreate\<close>, from index \<open>i\<close> on.\<close>

fun friend_files ::
    "friend_env \<Rightarrow> int \<Rightarrow> nat \<Rightarrow> struct_file list \<Rightarrow> error + (int list \<times> event list)" where
  "friend_files env dirfd i [] = Inr ([], [])"
| "friend_files env dirfd i (fl # fls) =
     (case (if ftype fl = FIFO then fiforeset (fe_reset env i) dirfd (- 1) fl
            else if ftype fl = STATIC then fifoopen (fe_open env i) dirfd fl
            else Inr (- 1, [])) of
        Inl e \<Rightarrow> Inl e
      | Inr (fd, ev) \<Rightarrow>
          (case friend_files env dirfd (Suc i) fls of
             Inl e \<Rightarrow> Inl e
           | Inr (fds, evs) \<Rightarrow> Inr (fd # fds, ev @ evs)))"

text \<open>
  \<open>friendcreate\<close>. The local \<open>r\<close> is a \<open>size_t\<close>, so its tests \<open>r < 0\<close> are
  comparisons of an unsigned value. The friend comes from \<open>calloc\<close>: its name and its
  transfer state start as zeros.
\<close>

definition friendcreate :: "friend_env \<Rightarrow> int \<Rightarrow> world \<Rightarrow> error + world" where
  "friendcreate env frnum w =
     (if \<not> fe_calloc env then eprintf ''calloc:'' []
      else if fe_name_size env < 0 then
        Inr (emit [Weprintf '': %ld : Name : Failed to get\<newline>'' [AInt frnum]] w)
      else if fe_name_size env \<noteq> 0 \<and> fe_max_name env < unat (fe_name_size env)
      then Inl OutOfBounds
      else
        (let name = (if fe_name_size env = 0 then ''Anonymous'' else []);
             ident = fe_public_key env;
             idstr = id2str ident
         in if (word_of_int (sys_rv (fe_mkdir env)) :: size_t) < 0
               \<and> sys_errno (fe_mkdir env) \<noteq> EEXIST
            then eprintf ''mkdir %s:'' [AStr idstr]
            else if \<not> fe_opendir env then eprintf ''opendir %s:'' [AStr idstr]
            else if (word_of_int (fe_dirfd env) :: size_t) < 0
            then eprintf ''dirfd %s:'' [AStr idstr]
            else
              (case friend_files env (fe_dirfd env) 0 ffiles of
                 Inl e \<Rightarrow> Inl e
               | Inr (fds, ev_files) \<Rightarrow>
                   (let r1 = (if fe_status_size env < 0 then 0
                              else if fe_max_status env < unat (fe_status_size env)
                              then fe_max_status env
                              else unat (fe_status_size env));
                        status = cstr ((fe_status env)[r1 := CHR 0x00]);
                        r2 = (word_of_int (fe_state env) :: size_t);
                        f = \<lparr>f_name = name, f_num = word_of_int frnum, f_id = ident,
                             f_idstr = idstr, f_dirfd = fe_dirfd env, f_fd = fds,
                             f_tx = \<lparr>tx_fnum = 0, tx_buf = None, tx_chunksz = 0, tx_n = 0,
                                     tx_pendingbuf = 0, tx_state = TRANSFER_NONE,
                                     tx_lastblock = \<lparr>tv_sec = 0, tv_nsec = 0\<rparr>,
                                     tx_cooldown = 0\<rparr>,
                             f_rxstate = TRANSFER_NONE\<rparr>
                    in Inr (emit
                         ([Mkdir idstr, Opendir idstr] @ ev_files
                          @ [Ftruncate (fds ! FNAME),
                             Dprintf (fds ! FNAME) ''%s\<newline>'' [AStr name],
                             Ftruncate (fds ! FONLINE),
                             Dprintf (fds ! FONLINE) ''%d\<newline>'' [AInt (fe_online env)]]
                          @ (if fe_status_size env < 0
                             then [Weprintf '': %s : Status : Failed to get\<newline>'' [AStr name]]
                             else [])
                          @ [Ftruncate (fds ! FSTATUS),
                             Dprintf (fds ! FSTATUS) ''%s\<newline>'' [AStr status]]
                          @ (if r2 < 0
                             then [Weprintf '': %s : State : Failed to get\<newline>'' [AStr name]]
                             else if int (length ustate) \<le> uint r2
                             then [Weprintf '': %s : State : %d > Invalid\<newline>''
                                     [AStr name, AInt (uint r2)]]
                             else [Ftruncate (fds ! FSTATE),
                                   Dprintf (fds ! FSTATE) ''%s\<newline>'' [AStr (ustate ! unat r2)]])
                          @ [Ftruncate (fds ! FFILE_STATE)])
                         (w\<lparr>friendhead := friendhead w @ [f]\<rparr>))))))"

text \<open>
  What \<open>datasave\<close> gets from outside: the answer of \<open>open\<close>, the flag
  \<open>encryptsavefile\<close> of config.h, the size of the transport's state, the constant
  \<open>TOX_PASS_ENCRYPTION_EXTRA_LENGTH\<close> of the transport's header, whether
  \<open>malloc\<close> succeeded, whether the encryption reported no error and what \<open>write\<close>
  returned.
\<close>

record save_env =
  sv_open :: sysres
  sv_encrypt :: bool
  sv_size :: int
  sv_extra :: int
  sv_malloc :: bool
  sv_pwerr_ok :: bool
  sv_write :: int

definition datasave :: "save_env \<Rightarrow> error + event list" where
  "datasave env =
     (if sys_rv (sv_open env) < 0 then eprintf ''open %s:'' []
      else
        (let fd = sys_rv (sv_open env);
             sz = (if sv_encrypt env then sv_size env + sv_extra env else sv_size env)
         in if \<not> sv_malloc env then eprintf ''malloc:'' []
            else if sv_write env \<noteq> sz then eprintf ''write %s:'' []
            else Inr ([Open_savefile]
                      @ (if sv_encrypt env
                         then Tox_pass_encrypt # (if sv_pwerr_ok env then [Tox_get_savedata] else [])
                         else [Tox_get_savedata])
                      @ [Write_savefile fd sz, Fsync fd, Close fd])))"

section \<open>The request ledger in the event loop\<close>

text \<open>
  What one pass of the request loop of \<open>loop\<close> gets from outside: whether the
  request's descriptor is in the read set, the answers for \<open>fiforead\<close>, the answers
  for a reset of the FIFO, the result of \<open>tox_friend_add_norequest\<close>, and the
  environments of \<open>friendcreate\<close> and \<open>datasave\<close>.
\<close>

record req_env =
  rq_isset :: bool
  rq_reads :: "read_result list"
  rq_reset :: reset_env
  rq_add :: int
  rq_friend :: friend_env
  rq_save :: save_env

text \<open>\<open>TAILQ_REMOVE\<close> of the request at position \<open>i\<close>.\<close>

definition remove_request :: "nat \<Rightarrow> world \<Rightarrow> world" where
  "remove_request i w = w\<lparr>reqhead := take i (reqhead w) @ drop (Suc i) (reqhead w)\<rparr>"

definition set_req_fd :: "nat \<Rightarrow> int \<Rightarrow> world \<Rightarrow> world" where
  "set_req_fd i fd w = w\<lparr>reqhead := (reqhead w)[i := (reqhead w ! i)\<lparr>req_fd := fd\<rparr>]\<rparr>"

text \<open>The accept branch (\<open>c == '1'\<close>) and the reject branch of the request loop.\<close>

definition request_accept :: "req_env \<Rightarrow> request \<Rightarrow> world \<Rightarrow> error + world" where
  "request_accept env req w =
     (case friendcreate (rq_friend env) (rq_add env) w of
        Inl e \<Rightarrow> Inl e
      | Inr w1 \<Rightarrow>
          (case datasave (rq_save env) of
             Inl e \<Rightarrow> Inl e
           | Inr evs \<Rightarrow>
               Inr (emit (Logmsg ''Request : %s > Accepted\<newline>'' [AStr (req_idstr req)] # evs) w1)))"

definition request_reject :: "req_env \<Rightarrow> request \<Rightarrow> world \<Rightarrow> error + world" where
  "request_reject env req w =
     Inr (emit [Tox_friend_delete (rq_add env),
                Logmsg ''Request : %s > Rejected\<newline>'' [AStr (req_idstr req)]] w)"

text \<open>
  The body of the request loop for the request at position \<open>i\<close> of the ledger. The
  flag of the result says whether the request was removed. The field \<open>type\<close> of the
  local \<open>reqfifo\<close> is never set nor read.
\<close>

definition request_step ::
    "req_env \<Rightarrow> nat \<Rightarrow> world \<Rightarrow> (error + (bool \<times> world)) option" where
  "request_step env i w =
     (let req = reqhead w ! i;
          outfd = slot_fd (gslots w ! REQUEST) ! OUT;
          reqfifo = \<lparr>ftype = NONE, fname = req_idstr req, fflags = [O_RDONLY, O_NONBLOCK]\<rparr>
      in if \<not> rq_isset env then Some (Inr (False, w))
         else
           (case fiforead (rq_reads env) (rq_reset env) outfd (req_fd req) reqfifo 1 of
              None \<Rightarrow> None
            | Some (Inl e) \<Rightarrow> Some (Inl e)
            | Some (Inr (n, d, fd', evr)) \<Rightarrow>
                (let w1 = emit evr (set_req_fd i fd' w) in
                 if n \<noteq> 1 then Some (Inr (False, w1))
                 else if hd d \<noteq> CHR ''0'' \<and> hd d \<noteq> CHR ''1'' then Some (Inr (False, w1))
                 else
                   (let w2 = emit [Tox_friend_add_norequest (req_id req)] w1 in
                    if rq_add env < 0 then
                      (case fiforeset (rq_reset env) outfd fd' reqfifo of
                         Inl e \<Rightarrow> Some (Inl e)
                       | Inr (fd2, evs) \<Rightarrow>
                           Some (Inr (False,
                             emit (Weprintf ''Failed to add friend %s\<newline>'' [AStr (req_idstr req)] # evs)
                               (set_req_fd i fd2 w2))))
                    else
                      (case (if hd d = CHR ''1'' then request_accept env req w2
                             else request_reject env req w2) of
                         Inl e \<Rightarrow> Some (Inl e)
                       | Inr w3 \<Rightarrow>
                           Some (Inr (True,
                             remove_request i
                               (emit [Unlinkat outfd (req_idstr req), Close fd'] w3))))))))"

text \<open>
  The request loop of \<open>loop\<close>, from position \<open>i\<close> of the ledger on: a removed
  request leaves the next one at the same position. Every pass takes the next
  environment; the result is \<open>None\<close> when they run out before the ledger does.
\<close>

fun request_loop :: "req_env list \<Rightarrow> nat \<Rightarrow> world \<Rightarrow> (error + world) option" where
  "request_loop [] i w = (if i < length (reqhead w) then None else Some (Inr w))"
| "request_loop (e # es) i w =
     (if \<not> i < length (reqhead w) then Some (Inr w)
      else
        (case request_step e i w of
           None \<Rightarrow> None
         | Some (Inl err) \<Rightarrow> Some (Inl err)
         | Some (Inr (True, w')) \<Rightarrow> request_loop es i w'
         | Some (Inr (False, w')) \<Rightarrow> request_loop es (Suc i) w'))"

section \<open>The global slots\<close>

text \<open>\<open>PIPE_BUF\<close> of limits.h on Linux.\<close>

definition PIPE_BUF :: nat where
  "PIPE_BUF = 4096"

definition set_slot_fd :: "nat \<Rightarrow> nat \<Rightarrow> int \<Rightarrow> world \<Rightarrow> world" where
  "set_slot_fd s m fd w =
     w\<lparr>gslots := (gslots w)[s := (gslots w ! s)\<lparr>slot_fd := (slot_fd (gslots w ! s))[m := fd]\<rparr>]\<rparr>"

text \<open>
  The bytes a handler got from \<open>fiforead\<close>, after \<open>if (buf[n - 1] == '\n') n--;
  buf[n] = '\0';\<close>, read as a C string.
\<close>

definition strip_newline :: "string \<Rightarrow> string" where
  "strip_newline d = (if d \<noteq> [] \<and> last d = CHR 0x0A then butlast d else d)"

text \<open>
  The loop of \<open>setuserstate\<close> over \<open>ustate\<close> from index \<open>i\<close> on: the index at
  which it breaks, or \<open>None\<close> when it runs to \<open>LEN(ustate)\<close>.
\<close>

primrec ustate_scan :: "string \<Rightarrow> nat \<Rightarrow> string list \<Rightarrow> nat option" where
  "ustate_scan buf i [] = None"
| "ustate_scan buf i (u # us) =
     (if i \<noteq> TOX_USER_STATUS_INVALID \<and> buf = u then Some i
      else ustate_scan buf (Suc i) us)"

record state_env =
  st_reads :: "read_result list"
  st_reset :: reset_env
  st_save :: save_env

definition setuserstate :: "state_env \<Rightarrow> world \<Rightarrow> (error + world) option" where
  "setuserstate env w =
     (let sl = gslots w ! STATE in
      case fiforead (st_reads env) (st_reset env) (slot_dirfd sl) (slot_fd sl ! IN)
             (gfiles ! IN) (PIPE_BUF - 1) of
        None \<Rightarrow> None
      | Some (Inl e) \<Rightarrow> Some (Inl e)
      | Some (Inr (n, d, fd', evr)) \<Rightarrow>
          (let w1 = emit evr (set_slot_fd STATE IN fd' w) in
           if n \<le> 0 then Some (Inr w1)
           else
             (let buf = cstr (strip_newline d) in
              case ustate_scan buf 0 ustate of
                None \<Rightarrow>
                  Some (Inr (emit [Ftruncate (slot_fd sl ! ERR), Lseek (slot_fd sl ! ERR),
                                   Dprintf (slot_fd sl ! ERR) ''invalid\<newline>'' [],
                                   Weprintf ''Invalid state: %s\<newline>'' [AStr buf]] w1))
              | Some i \<Rightarrow>
                  (case datasave (st_save env) of
                     Inl e \<Rightarrow> Some (Inl e)
                   | Inr evs \<Rightarrow>
                       Some (Inr (emit
                         ([Tox_self_set_status i,
                           Ftruncate (slot_fd sl ! OUT), Lseek (slot_fd sl ! OUT),
                           Dprintf (slot_fd sl ! OUT) ''%s\<newline>'' [AStr buf]]
                          @ evs @ [Logmsg '': State > %s\<newline>'' [AStr buf]]) w1))))))"

text \<open>
  The table \<open>reqerr\<close>, in the order of the transport's enumeration
  \<open>TOX_ERR_FRIEND_ADD\<close> that indexes it.
\<close>

definition reqerr :: "string list" where
  "reqerr =
     [''No errors, completed successfully'',
      ''Unexpected argument, NULL error'',
      ''Message is too long'',
      ''Please add a message to your request'',
      ''That appears to be your own ID'',
      ''Friend request already sent'',
      ''Bad checksum while verifying address'',
      ''Friend already added but invalid nospam'',
      ''Error increasing the friend list size'']"

text \<open>
  What \<open>sendfriendreq\<close> gets from outside: the answers for \<open>fiforead\<close>, the
  indeterminate contents of the local array \<open>id\<close>, the result of
  \<open>tox_friend_add\<close>, and the environments of \<open>friendcreate\<close> and \<open>datasave\<close>.
\<close>

record freq_env =
  fq_reads :: "read_result list"
  fq_reset :: reset_env
  fq_id :: "byte list"
  fq_add :: int
  fq_friend :: friend_env
  fq_save :: save_env

text \<open>
  The message of a request line: what follows the first white-space character, without
  a final newline, or the default when there is nothing.
\<close>

definition request_msg :: "string \<Rightarrow> string" where
  "request_msg buf =
     (case dropWhile (\<lambda>c. \<not> isspace c) buf of
        [] \<Rightarrow> ''ratox is awesome!''
      | sp # m \<Rightarrow> if m = [] then ''ratox is awesome!'' else strip_newline m)"

definition sendfriendreq :: "freq_env \<Rightarrow> world \<Rightarrow> (error + world) option" where
  "sendfriendreq env w =
     (let sl = gslots w ! REQUEST in
      case fiforead (fq_reads env) (fq_reset env) (slot_dirfd sl) (slot_fd sl ! IN)
             (gfiles ! IN) (PIPE_BUF - 1) of
        None \<Rightarrow> None
      | Some (Inl e) \<Rightarrow> Some (Inl e)
      | Some (Inr (n, d, fd', evr)) \<Rightarrow>
          (let w1 = emit evr (set_slot_fd REQUEST IN fd' w) in
           if n \<le> 0 then Some (Inr w1)
           else
             (let buf = takeWhile (\<lambda>c. \<not> isspace c) (cstr d);
                  msg = request_msg (cstr d)
              in if length buf \<noteq> TOX_FRIEND_ADDRESS_SIZE * 2 then
                   Some (Inr (emit [Ftruncate (slot_fd sl ! ERR), Lseek (slot_fd sl ! ERR),
                                    Dprintf (slot_fd sl ! ERR) ''Invalid friend ID\<newline>'' []] w1))
                 else
                   (case str2id buf (fq_id env) of
                      Inl e \<Rightarrow> Some (Inl e)
                    | Inr ident \<Rightarrow>
                        (let w2 = emit [Tox_friend_add ident msg,
                                        Ftruncate (slot_fd sl ! ERR), Lseek (slot_fd sl ! ERR)] w1
                         in if fq_add env < 0 then
                              if nat (- fq_add env) < length reqerr
                              then Some (Inr (emit [Dprintf (slot_fd sl ! ERR) ''%s\<newline>''
                                                      [AStr (reqerr ! nat (- fq_add env))]] w2))
                              else Some (Inl OutOfBounds)
                            else
                              (case friendcreate (fq_friend env) (fq_add env) w2 of
                                 Inl e \<Rightarrow> Some (Inl e)
                               | Inr w3 \<Rightarrow>
                                   (case datasave (fq_save env) of
                                      Inl e \<Rightarrow> Some (Inl e)
                                    | Inr evs \<Rightarrow>
                                        Some (Inr (emit (evs @ [Logmsg ''Request > Sent\<newline>'' []])
                                                     w3)))))))))"

text \<open>
  The test of \<open>setnospam\<close> on one character:
  \<open>nospam[i] < '0' || (nospam[i] > '9' && nospam[i] < 'A') || nospam[i] > 'F'\<close>.
\<close>

definition nospam_invalid :: "char \<Rightarrow> bool" where
  "nospam_invalid c =
     (let k = of_char c :: nat in
      k < of_char CHR ''0'' \<or> (of_char CHR ''9'' < k \<and> k < of_char CHR ''A'')
      \<or> of_char CHR ''F'' < k)"

text \<open>
  \<open>strtoul(s, NULL, 16)\<close> on a string without leading white space, sign or \<open>0x\<close>
  prefix, which is all the test above lets through: the value of the longest prefix of
  hexadecimal digits.
\<close>

definition strtoul16 :: "string \<Rightarrow> nat" where
  "strtoul16 s =
     foldl (\<lambda>a c. case hexdigit c of None \<Rightarrow> a | Some v \<Rightarrow> 16 * a + unat v) 0
       (takeWhile (\<lambda>c. hexdigit c \<noteq> None) s)"

text \<open>
  What \<open>setnospam\<close> gets from outside: the answers for \<open>fiforead\<close> (with those of
  its reset at end of file), the environment of \<open>datasave\<close>, the address
  \<open>tox_self_get_address\<close> stores, and the answers for the reset at the label
  \<open>end\<close>.
\<close>

record nospam_env =
  ns_reads :: "read_result list"
  ns_reset_eof :: reset_env
  ns_save :: save_env
  ns_address :: "byte list"
  ns_reset :: reset_env

definition setnospam :: "nospam_env \<Rightarrow> world \<Rightarrow> (error + world) option" where
  "setnospam env w =
     (let sl = gslots w ! NOSPAM in
      case fiforead (ns_reads env) (ns_reset_eof env) (slot_dirfd sl) (slot_fd sl ! IN)
             (gfiles ! IN) (2 * 4 + 1 - 1) of
        None \<Rightarrow> None
      | Some (Inl e) \<Rightarrow> Some (Inl e)
      | Some (Inr (n, d, fd', evr)) \<Rightarrow>
          (let w1 = emit evr (set_slot_fd NOSPAM IN fd' w) in
           if n \<le> 0 then Some (Inr w1)
           else
             (let nospam = strip_newline d;
                  nsval = (of_nat (strtoul16 (cstr nospam)) :: u32)
              in case (if list_ex nospam_invalid nospam then
                         Inr [Dprintf (slot_fd sl ! ERR)
                                ''Input contains invalid characters ![0-9, A-F]\<newline>'' []]
                       else
                         (case datasave (ns_save env) of
                            Inl e \<Rightarrow> Inl e
                          | Inr evs \<Rightarrow>
                              Inr ([Tox_self_set_nospam nsval] @ evs
                                   @ [Logmsg ''Nospam > %08X\<newline>'' [AU32 nsval],
                                      Ftruncate (slot_fd sl ! OUT), Lseek (slot_fd sl ! OUT),
                                      Dprintf (slot_fd sl ! OUT) ''%08X\<newline>'' [AU32 nsval],
                                      Tox_self_get_address,
                                      Ftruncate (idfd w), Lseek (idfd w)]
                                   @ map (\<lambda>b. Dprintf (idfd w) ''%02X'' [AByte b])
                                       (take TOX_FRIEND_ADDRESS_SIZE (ns_address env))
                                   @ [Dprintf (idfd w) ''\<newline>'' []]))) of
                   Inl e \<Rightarrow> Some (Inl e)
                 | Inr evs \<Rightarrow>
                     (case fiforeset (ns_reset env) (slot_dirfd sl) fd' (gfiles ! IN) of
                        Inl e \<Rightarrow> Some (Inl e)
                      | Inr (fd2, evs2) \<Rightarrow>
                          Some (Inr (emit (evs @ evs2) (set_slot_fd NOSPAM IN fd2 w1)))))))"

text \<open>
  The characters \<open>printf\<close> writes for the two conversions of \<open>setnospam\<close>:
  \<open>%02X\<close> of a byte and \<open>%08X\<close> of a 32-bit value are the hexadecimal digits of
  the value in upper case, most significant first, padded with zeros to the width. The
  digits are those of the table \<open>hex\<close>.
\<close>

definition printf_02X :: "byte \<Rightarrow> string" where
  "printf_02X b = [hex ! (unat b div 16), hex ! (unat b mod 16)]"

definition printf_08X :: "u32 \<Rightarrow> string" where
  "printf_08X v = map (\<lambda>i. hex ! (unat v div 16 ^ i mod 16)) [7, 6, 5, 4, 3, 2, 1, 0]"

text \<open>
  The hexadecimal characters the loop
  \<open>for (i = 0; i < TOX_FRIEND_ADDRESS_SIZE; i++) dprintf(idfd, "%02X", address[i]);\<close>
  of \<open>setnospam\<close> writes to the \<open>id\<close> file for the address \<open>a\<close>.
\<close>

definition id_text :: "byte list \<Rightarrow> string" where
  "id_text a = concat (map printf_02X (take TOX_FRIEND_ADDRESS_SIZE a))"

text \<open>
  Modelled from the spec: \<open>tox_self_get_address\<close> belongs to the transport and is not
  part of the sources. The specification gives the layout of the 38-byte address it
  stores: the public key, then the nospam, then the checksum. With the 32-byte key and
  the 4-byte nospam, the nospam field is bytes 32 to 35 and the checksum bytes 36 and 37.
\<close>

definition address_nospam :: "byte list \<Rightarrow> byte list" where
  "address_nospam a = take 4 (drop TOX_PUBLIC_KEY_SIZE a)"

definition address_checksum :: "byte list \<Rightarrow> byte list" where
  "address_checksum a = take 2 (drop (TOX_PUBLIC_KEY_SIZE + 4) a)"

section \<open>Concrete environments and states\<close>

text \<open>System calls that succeed: the FIFO is recreated and opened as descriptor 9.\<close>

definition reset_ok :: reset_env where
  "reset_ok =
     \<lparr>re_unlinkat = \<lparr>sys_rv = 0, sys_errno = ENOENT\<rparr>,
      re_mkfifoat = \<lparr>sys_rv = 0, sys_errno = ENOENT\<rparr>,
      re_openat = \<lparr>sys_rv = 9, sys_errno = ENOENT\<rparr>\<rparr>"

definition save_ok :: save_env where
  "save_ok =
     \<lparr>sv_open = \<lparr>sys_rv = 20, sys_errno = ENOENT\<rparr>, sv_encrypt = False, sv_size = 100,
      sv_extra = 80, sv_malloc = True, sv_pwerr_ok = True, sv_write = 100\<rparr>"

definition tx_idle :: transfer where
  "tx_idle =
     \<lparr>tx_fnum = 0, tx_buf = None, tx_chunksz = 0, tx_n = 0, tx_pendingbuf = 0,
      tx_state = TRANSFER_NONE, tx_lastblock = \<lparr>tv_sec = 0, tv_nsec = 0\<rparr>,
      tx_cooldown = 0\<rparr>"

text \<open>A friend with number 7 whose key is 32 bytes \<open>0xAB\<close>.\<close>

definition friend7 :: friend where
  "friend7 =
     \<lparr>f_name = ''Anonymous'', f_num = 7, f_id = replicate 32 0xAB,
      f_idstr = id2str (replicate 32 0xAB), f_dirfd = 30,
      f_fd = [31, 32, 33, 34, - 1, 36, 37, 38, 39, 40, 41],
      f_tx = tx_idle, f_rxstate = TRANSFER_NONE\<rparr>"

text \<open>A pending request from the key of 32 bytes \<open>0xCD\<close>, its FIFO open as descriptor 50.\<close>

definition request_cd :: request where
  "request_cd =
     \<lparr>req_id = replicate 32 0xCD, req_idstr = id2str (replicate 32 0xCD),
      req_msg = Some ''hi'', req_fd = 50\<rparr>"

definition slots0 :: "slot list" where
  "slots0 =
     [\<lparr>slot_name = ''name'', outisfolder = False, slot_dirfd = 10, slot_fd = [11, 12, 13]\<rparr>,
      \<lparr>slot_name = ''status'', outisfolder = False, slot_dirfd = 14, slot_fd = [15, 16, 17]\<rparr>,
      \<lparr>slot_name = ''state'', outisfolder = False, slot_dirfd = 18, slot_fd = [19, 20, 21]\<rparr>,
      \<lparr>slot_name = ''request'', outisfolder = True, slot_dirfd = 22, slot_fd = [23, 24, 25]\<rparr>,
      \<lparr>slot_name = ''nospam'', outisfolder = False, slot_dirfd = 26, slot_fd = [27, 28, 29]\<rparr>]"

definition world0 :: world where
  "world0 = \<lparr>gslots = slots0, idfd = 5, friendhead = [friend7], reqhead = [request_cd], trace = []\<rparr>"

definition cs_env0 :: cs_env where
  "cs_env0 = \<lparr>cs_max_name = 128, cs_name_size = 0, cs_name = replicate 129 CHR ''x''\<rparr>"







text \<open>
  The transport knows the new friend by the key of 32 bytes \<open>0xAB\<close>; every system
  call succeeds.
\<close>

definition friend_env0 :: friend_env where
  "friend_env0 =
     \<lparr>fe_max_name = 128, fe_max_status = 1007, fe_calloc = True, fe_name_size = 0,
      fe_public_key = replicate 32 0xAB,
      fe_mkdir = \<lparr>sys_rv = 0, sys_errno = ENOENT\<rparr>, fe_opendir = True, fe_dirfd = 30,
      fe_reset = (\<lambda>i. reset_ok), fe_open = (\<lambda>i. \<lparr>sys_rv = 40, sys_errno = ENOENT\<rparr>),
      fe_online = 0, fe_status_size = 5, fe_status = ''hello'' @ [CHR 0x00], fe_state = 0\<rparr>"

text \<open>The byte \<open>c\<close> arrives on the request's FIFO and the transport answers \<open>r\<close>.\<close>

definition req_env0 :: "char \<Rightarrow> int \<Rightarrow> req_env" where
  "req_env0 c r =
     \<lparr>rq_isset = True, rq_reads = [RdData [c]], rq_reset = reset_ok, rq_add = r,
      rq_friend = friend_env0, rq_save = save_ok\<rparr>"

text \<open>The line \<open>d\<close> arrives on the \<open>in\<close> FIFO of a slot; every system call succeeds.\<close>

definition state_env0 :: "string \<Rightarrow> state_env" where
  "state_env0 d = \<lparr>st_reads = [RdData d], st_reset = reset_ok, st_save = save_ok\<rparr>"

definition freq_env0 :: "string \<Rightarrow> freq_env" where
  "freq_env0 d =
     \<lparr>fq_reads = [RdData d], fq_reset = reset_ok, fq_id = replicate 38 0, fq_add = 3,
      fq_friend = friend_env0, fq_save = save_ok\<rparr>"

definition nospam_env0 :: "string \<Rightarrow> nospam_env" where
  "nospam_env0 d =
     \<lparr>ns_reads = [RdData d], ns_reset_eof = reset_ok, ns_save = save_ok,
      ns_address = replicate 38 0x11, ns_reset = reset_ok\<rparr>"

text \<open>
  The line \<open>d\<close> arrives on \<open>nospam/in\<close>; the address the transport reports is the
  public key of 32 bytes \<open>0x11\<close> followed by the six bytes \<open>rest\<close> of nospam and
  checksum.
\<close>

definition nospam_env1 :: "string \<Rightarrow> byte list \<Rightarrow> nospam_env" where
  "nospam_env1 d rest =
     \<lparr>ns_reads = [RdData d], ns_reset_eof = reset_ok, ns_save = save_ok,
      ns_address = replicate 32 0x11 @ rest, ns_reset = reset_ok\<rparr>"

section \<open>The invariant of the send transfer\<close>




section \<open>Properties of the hex codec\<close>

lemma and15: "(b::byte) AND 0xf = take_bit 4 b"
proof -
  have "(0xf::byte) = mask 4" by (simp add: mask_eq_exp_minus_1)
  then show ?thesis by (simp add: take_bit_eq_mask)
qed

lemma hi15: "drop_bit 4 (b::byte) AND 0xf = drop_bit 4 b"
proof -
  have "take_bit 4 (drop_bit 4 b) = drop_bit 4 b"
    by (rule bit_word_eqI) (auto simp: bit_simps dest: bit_imp_le_length)
  then show ?thesis by (simp add: and15)
qed

lemma byte_split: "16 * (drop_bit 4 b AND 0xf) + (b AND 0xf) = (b::byte)"
proof -
  have "push_bit 4 (drop_bit 4 b) + take_bit 4 b = b" by (rule bits_ident)
  then have "16 * drop_bit 4 b + take_bit 4 b = b"
    by (simp add: push_bit_eq_mult mult.commute)
  then show ?thesis
    by (subst hi15, subst and15)
qed

lemma nib_lt: "unat ((b::byte) AND 0xf) < 16"
proof -
  have "unat (take_bit 4 b) = take_bit 4 (unat b)"
    by (simp add: unsigned_take_bit_eq)
  also have "\<dots> < 2 ^ 4"
    by (rule take_bit_nat_less_exp)
  finally show ?thesis by (simp add: and15)
qed

lemma nibble_cases: "n < 16 \<Longrightarrow> n \<in> {0,1,2,3,4,5,6,7,8,9,10,11,12,13,14,15::nat}"
  by simp arith

lemma hex_nth:
  "n < 16 \<Longrightarrow> hexdigit (hex ! n) = Some (of_nat n) \<and> \<not> isspace (hex ! n) \<and>
     hex ! n \<noteq> CHR ''+'' \<and> hex ! n \<noteq> CHR ''-'' \<and> hex ! n \<noteq> CHR ''x'' \<and> hex ! n \<noteq> CHR ''X''"
  apply (drule nibble_cases)
  apply (auto simp: hex_def hexdigit_def isspace_def)
  done

lemma hex_ratatox_nth:
  "n < 16 \<Longrightarrow> hexdigit (hex_ratatox ! n) = Some (of_nat n) \<and> \<not> isspace (hex_ratatox ! n) \<and>
     hex_ratatox ! n \<noteq> CHR ''+'' \<and> hex_ratatox ! n \<noteq> CHR ''-'' \<and>
     hex_ratatox ! n \<noteq> CHR ''x'' \<and> hex_ratatox ! n \<noteq> CHR ''X''"
  apply (drule nibble_cases)
  apply (auto simp: hex_ratatox_def hexdigit_def isspace_def)
  done

lemma map_tolower_hex: "map tolower hex = hex_ratatox"
  by (simp add: hex_def hex_ratatox_def tolower_def)

lemma tolower_hex: "n < 16 \<Longrightarrow> tolower (hex ! n) = hex_ratatox ! n"
  using nth_map [of n hex tolower] by (simp add: map_tolower_hex) (simp add: hex_def)

lemma scan_pair:
  assumes "hexdigit c = Some hi" "hexdigit d = Some lo" "\<not> isspace c"
    "c \<noteq> CHR ''+''" "c \<noteq> CHR ''-''" "d \<noteq> CHR ''x''" "d \<noteq> CHR ''X''"
  shows "sscanf_2hhx (c # d # rest) = Some (16 * hi + lo)"
  using assms by (simp add: sscanf_2hhx_def)

lemma sscanf_id2str_byte: "sscanf_2hhx (id2str_byte hex b @ rest) = Some b"
proof -
  let ?h = "unat (drop_bit 4 b AND 0xf)" and ?l = "unat (b AND 0xf)"
  have h: "?h < 16" using nib_lt [of "drop_bit 4 b"] .
  have l: "?l < 16" by (rule nib_lt)
  have "sscanf_2hhx (hex ! ?h # hex ! ?l # rest) = Some (16 * of_nat ?h + of_nat ?l)"
    using hex_nth [OF h] hex_nth [OF l] by (intro scan_pair) simp_all
  then show ?thesis by (simp add: id2str_byte_def byte_split)
qed

lemma sscanf_id2str_byte_lower:
  "sscanf_2hhx (map tolower (id2str_byte hex b) @ rest) = Some b"
proof -
  let ?h = "unat (drop_bit 4 b AND 0xf)" and ?l = "unat (b AND 0xf)"
  have h: "?h < 16" using nib_lt [of "drop_bit 4 b"] .
  have l: "?l < 16" by (rule nib_lt)
  have "sscanf_2hhx (hex_ratatox ! ?h # hex_ratatox ! ?l # rest)
        = Some (16 * of_nat ?h + of_nat ?l)"
    using hex_ratatox_nth [OF h] hex_ratatox_nth [OF l] by (intro scan_pair) simp_all
  then show ?thesis
    by (simp add: id2str_byte_def byte_split tolower_hex [OF h] tolower_hex [OF l])
qed

lemma length_id2str_loop: "length (id2str_loop tbl bs) = 2 * length bs"
  by (induction bs) (simp_all add: id2str_byte_def)

lemma str2id_loop_id2str:
  "length ident = i + length bs \<Longrightarrow>
   str2id_loop (length bs) i (id2str_loop hex bs) ident = Inr (take i ident @ bs)"
proof (induction bs arbitrary: i ident)
  case Nil
  then show ?case by simp
next
  case (Cons b bs)
  have len: "length (ident[i := b]) = Suc i + length bs" using Cons.prems by simp
  have "str2id_loop (length (b # bs)) i (id2str_loop hex (b # bs)) ident
        = str2id_loop (length bs) (Suc i) (id2str_loop hex bs) (ident[i := b])"
    using Cons.prems by (simp add: sscanf_id2str_byte) (simp add: id2str_byte_def)
  also have "\<dots> = Inr (take (Suc i) (ident[i := b]) @ bs)"
    by (rule Cons.IH [OF len])
  also have "take (Suc i) (ident[i := b]) = take i ident @ [b]"
    using Cons.prems by (simp add: take_Suc_conv_app_nth)
  finally show ?case by simp
qed

lemma str2id_loop_id2str_lower:
  "length ident = i + length bs \<Longrightarrow>
   str2id_loop (length bs) i (map tolower (id2str_loop hex bs)) ident
   = Inr (take i ident @ bs)"
proof (induction bs arbitrary: i ident)
  case Nil
  then show ?case by simp
next
  case (Cons b bs)
  have len: "length (ident[i := b]) = Suc i + length bs" using Cons.prems by simp
  have "str2id_loop (length (b # bs)) i (map tolower (id2str_loop hex (b # bs))) ident
        = str2id_loop (length bs) (Suc i) (map tolower (id2str_loop hex bs)) (ident[i := b])"
    using Cons.prems by (simp add: sscanf_id2str_byte_lower) (simp add: id2str_byte_def)
  also have "\<dots> = Inr (take (Suc i) (ident[i := b]) @ bs)"
    by (rule Cons.IH [OF len])
  also have "take (Suc i) (ident[i := b]) = take i ident @ [b]"
    using Cons.prems by (simp add: take_Suc_conv_app_nth)
  finally show ?case by simp
qed

text \<open>
  C8. For every 32-byte public key \<open>k\<close>, \<open>id2str\<close> gives 64 characters, and
  \<open>str2id\<close> applied to them stores exactly \<open>k\<close> in the 32-byte array it is
  given, whatever the array held before; it stores the same key when every character
  of the string is first put in lower case.
\<close>

theorem str2id_id2str:
  "length k = TOX_CLIENT_ID_SIZE \<Longrightarrow> length ident = TOX_CLIENT_ID_SIZE \<Longrightarrow>
   length (id2str k) = 64 \<and>
   str2id (id2str k) ident = Inr k \<and>
   str2id (map tolower (id2str k)) ident = Inr k"
  using str2id_loop_id2str [of ident 0 k] str2id_loop_id2str_lower [of ident 0 k]
  by (simp add: str2id_def id2str_def length_id2str_loop TOX_CLIENT_ID_SIZE_def
      TOX_PUBLIC_KEY_SIZE_def)

theorem str2id_id2str_witness:
  "length (replicate 32 (0xAB :: byte)) = TOX_CLIENT_ID_SIZE \<and>
   length (replicate 32 (0 :: byte)) = TOX_CLIENT_ID_SIZE \<and>
   str2id (id2str (replicate 32 0xAB)) (replicate 32 0) = Inr (replicate 32 0xAB) \<and>
   str2id (map tolower (id2str (replicate 32 0xAB))) (replicate 32 0) = Inr (replicate 32 0xAB)"
  using str2id_id2str [of "replicate 32 0xAB" "replicate 32 0"]
  by (simp add: TOX_CLIENT_ID_SIZE_def TOX_PUBLIC_KEY_SIZE_def)

section \<open>Properties of the FIFO primitive\<close>

lemma fiforeset_ok:
  "fiforeset reset_ok dirfd fd f =
     Inr (9, [Unlinkat dirfd (fname f)] @ (if fd \<noteq> - 1 then [Close fd] else [])
             @ [Mkfifoat dirfd (fname f), Openat dirfd (fname f) (fflags f)])"
  by (simp add: fiforeset_def fifoopen_def reset_ok_def)

lemma fiforead_pos:
  "fiforead rs env dirfd fd f sz = Some (Inr (n, d, fd', evs)) \<Longrightarrow> 0 < n \<Longrightarrow>
   fd' = fd \<and> evs = [] \<and> n = int (length d) \<and> d \<noteq> [] \<and> length d \<le> sz"
proof (induction rs env dirfd fd f sz rule: fiforead.induct)
  case (1 env dirfd fd f sz)
  then show ?case by simp
next
  case (2 d0 rs env dirfd fd f sz)
  then show ?case
    by (auto simp: Let_def split: if_splits sum.splits prod.splits)
next
  case (3 e rs env dirfd fd f sz)
  then show ?case
    by (auto simp: eprintf_def split: if_splits)
qed

text \<open>
  C4, as amended. For every read attempt of \<open>fiforead\<close>: a read that fails with
  \<open>EINTR\<close> is retried (the call behaves as it does on the following answers of
  \<open>read\<close>); a read that fails with \<open>EWOULDBLOCK\<close> makes the call return \<open>-1\<close>,
  with the descriptor unchanged and no effect; a read of zero bytes runs
  \<open>fiforeset\<close> and the call returns 0 with the new descriptor, unless the reset ends
  the process; a read that fails with any other error ends the process through
  \<open>eprintf\<close>; a read of a positive number of bytes makes the call return that
  number, with the descriptor unchanged.
\<close>

theorem fiforead_outcomes:
  "fiforead (RdErr EINTR # rs) env dirfd fd f sz = fiforead rs env dirfd fd f sz \<and>
   fiforead (RdErr EWOULDBLOCK # rs) env dirfd fd f sz = Some (Inr (- 1, [], fd, [])) \<and>
   (take sz d = [] \<longrightarrow>
      fiforead (RdData d # rs) env dirfd fd f sz =
        (case fiforeset env dirfd fd f of
           Inl err \<Rightarrow> Some (Inl err)
         | Inr (fd', evs) \<Rightarrow> Some (Inr (0, [], fd', evs)))) \<and>
   (e \<noteq> EINTR \<and> e \<noteq> EWOULDBLOCK \<longrightarrow>
      fiforead (RdErr e # rs) env dirfd fd f sz = Some (Inl (Fatal ''read %s:''))) \<and>
   (take sz d \<noteq> [] \<longrightarrow>
      fiforead (RdData d # rs) env dirfd fd f sz =
        Some (Inr (int (length (take sz d)), take sz d, fd, [])) \<and>
      0 < int (length (take sz d)))"
  by (auto simp: eprintf_def Let_def min_def split: if_splits)

theorem fiforead_outcomes_witness:
  "take 8 '''' = [] \<and> EBADF \<noteq> EINTR \<and> EBADF \<noteq> EWOULDBLOCK \<and> take 8 ''ab'' \<noteq> [] \<and>
   fiforead [RdErr EINTR, RdData ''ab''] reset_ok 3 5 (gfiles ! IN) 8 = Some (Inr (2, ''ab'', 5, [])) \<and>
   fiforead [RdErr EWOULDBLOCK] reset_ok 3 5 (gfiles ! IN) 8 = Some (Inr (- 1, [], 5, [])) \<and>
   fiforead [RdData ''''] reset_ok 3 5 (gfiles ! IN) 8 =
     Some (Inr (0, [], 9, [Unlinkat 3 ''in'', Close 5, Mkfifoat 3 ''in'',
                            Openat 3 ''in'' [O_RDONLY, O_NONBLOCK]]))"
  using fiforead_outcomes [of "[RdData ''ab'']" reset_ok 3 5 "gfiles ! IN" 8 "''ab''" EBADF]
    fiforead_outcomes [of "[]" reset_ok 3 5 "gfiles ! IN" 8 "''''" EBADF]
  by (simp add: fiforeset_ok gfiles_def IN_def)

text \<open>
  C4 as stated fails: a read that fails with \<open>EBADF\<close> is none of the three named
  cases, and the call does not return a positive byte count; it ends the process.
\<close>

theorem fiforead_other_errno_counterexample:
  "fiforead [RdErr EBADF] reset_ok 3 5 (gfiles ! IN) 8 = Some (Inl (Fatal ''read %s:''))"
  by (simp add: eprintf_def)

section \<open>Properties of the connection-status callback\<close>

lemma friend_index_None: "friend_index frnum fs = None \<longleftrightarrow> (\<forall>f\<in>set fs. f_num f \<noteq> frnum)"
  by (induction fs) auto


lemma connstatus_requests_Some:
  "\<exists>kept evs. connstatus_requests outfd (Some f) reqs = Inr (kept, evs)"
  by (induction reqs) auto

lemma connstatus_requests_None:
  "reqs \<noteq> [] \<Longrightarrow> connstatus_requests outfd None reqs = Inl NullDeref"
  by (cases reqs) auto

text \<open>
  C10. When the transport's name lookup succeeds, \<open>cbconnstatus\<close> reads through the
  null pointer exactly when no friend has the callback's number and the request ledger
  is not empty: the friend loop leaves \<open>f\<close> null and the first pass of the cleanup
  loop compares \<open>f->id\<close>. With a friend of that number, or with an empty ledger, the
  callback returns.
\<close>

theorem cbconnstatus_null_deref:
  assumes "0 \<le> cs_name_size env" and "cs_name_size env \<le> int (cs_max_name env)"
  shows "((\<forall>f\<in>set (friendhead w). f_num f \<noteq> frnum) \<and> reqhead w \<noteq> [] \<longrightarrow>
            cbconnstatus env frnum status w = Inl NullDeref) \<and>
         ((\<exists>f\<in>set (friendhead w). f_num f = frnum) \<or> reqhead w = [] \<longrightarrow>
            (\<exists>w'. cbconnstatus env frnum status w = Inr w'))"
proof (intro conjI impI)
  assume a: "(\<forall>f\<in>set (friendhead w). f_num f \<noteq> frnum) \<and> reqhead w \<noteq> []"
  then have "friend_index frnum (friendhead w) = None"
    by (simp add: friend_index_None)
  with a assms show "cbconnstatus env frnum status w = Inl NullDeref"
    by (simp add: cbconnstatus_def Let_def connstatus_requests_None)
next
  assume a: "(\<exists>f\<in>set (friendhead w). f_num f = frnum) \<or> reqhead w = []"
  show "\<exists>w'. cbconnstatus env frnum status w = Inr w'"
  proof (cases "friend_index frnum (friendhead w)")
    case None
    with a have "reqhead w = []" by (auto simp: friend_index_None)
    with None assms show ?thesis
      by (simp add: cbconnstatus_def Let_def)
  next
    case (Some i)
    obtain kept evs where
      "connstatus_requests (slot_fd (gslots w ! REQUEST) ! OUT) (Some (friendhead w ! i)) (reqhead w)
       = Inr (kept, evs)"
      using connstatus_requests_Some by blast
    with Some assms show ?thesis
      by (simp add: cbconnstatus_def Let_def)
  qed
qed

theorem cbconnstatus_null_deref_witness:
  "0 \<le> cs_name_size cs_env0 \<and> cs_name_size cs_env0 \<le> int (cs_max_name cs_env0) \<and>
   map f_num (friendhead world0) = [7] \<and> reqhead world0 \<noteq> [] \<and>
   cbconnstatus cs_env0 8 TOX_CONNECTION_TCP world0 = Inl NullDeref \<and>
   (\<exists>w'. cbconnstatus cs_env0 7 TOX_CONNECTION_TCP world0 = Inr w')"
  using cbconnstatus_null_deref [of cs_env0 world0 8 TOX_CONNECTION_TCP]
    cbconnstatus_null_deref [of cs_env0 world0 7 TOX_CONNECTION_TCP]
  by (simp add: cs_env0_def world0_def friend7_def)

text \<open>
  C5 at the status \<open>TOX_CONNECTION_NONE\<close>, for the friend 7 of the example state: the
  \<open>switch\<close> falls through, so the callback logs the three lines \<open>Offline\<close>,
  \<open>Online using TCP\<close> and \<open>Online using UDP\<close>, then rewrites the friend's
  \<open>online\<close> file; the request of another key stays.
\<close>

theorem cbconnstatus_offline_logs:
  "cbconnstatus cs_env0 7 TOX_CONNECTION_NONE world0 =
     Inr (world0\<lparr>trace :=
       [Logmsg '': %s > %s\<newline>'' [AStr ''Anonymous'', AStr ''Offline''],
        Logmsg '': %s > %s\<newline>'' [AStr ''Anonymous'', AStr ''Online using TCP''],
        Logmsg '': %s > %s\<newline>'' [AStr ''Anonymous'', AStr ''Online using UDP''],
        Ftruncate 37, Lseek 37, Dprintf 37 ''%d\<newline>'' [AInt 0]]\<rparr>)"
  by (simp add: cbconnstatus_def cs_env0_def world0_def friend7_def request_cd_def
      connstatus_log_def TOX_CONNECTION_NONE_def emit_def slots0_def REQUEST_def OUT_def
      FONLINE_def TOX_CLIENT_ID_SIZE_def TOX_PUBLIC_KEY_SIZE_def Let_def)

section \<open>Properties of friend creation\<close>

lemma friendcreate_Inr:
  assumes "friendcreate env frnum w = Inr w'"
  shows "\<exists>f evs. w' = emit (Mkdir (id2str (fe_public_key env)) # Opendir (id2str (fe_public_key env)) # evs)
                         (w\<lparr>friendhead := friendhead w @ [f]\<rparr>) \<and>
           f_id f = fe_public_key env \<and> f_idstr f = id2str (fe_public_key env) \<and>
           f_num f = word_of_int frnum \<and> f_dirfd f = fe_dirfd env \<and>
           tx_state (f_tx f) = TRANSFER_NONE \<and> f_rxstate f = TRANSFER_NONE"
  using assms
  by (auto simp: friendcreate_def Let_def eprintf_def split: if_splits sum.splits prod.splits)

lemma id2str_byte_hex: "set (id2str_byte hex b) \<subseteq> set hex"
proof -
  have "length hex = 16" by (simp add: hex_def)
  then show ?thesis
    using nib_lt [of b] nib_lt [of "drop_bit 4 b"]
    by (simp add: id2str_byte_def)
qed

lemma id2str_loop_hex: "set (id2str_loop hex bs) \<subseteq> set hex"
  using id2str_byte_hex by (induction bs) auto

lemma tolower_id2str_byte: "map tolower (id2str_byte hex b) = id2str_byte hex_ratatox b"
  using nib_lt [of b] nib_lt [of "drop_bit 4 b"]
  by (simp add: id2str_byte_def tolower_hex)

lemma tolower_id2str_loop: "map tolower (id2str_loop hex bs) = id2str_loop hex_ratatox bs"
  by (induction bs) (simp_all add: tolower_id2str_byte)

text \<open>
  C9, as amended. For every friend that \<open>friendcreate\<close> of ratox.c creates from a
  32-byte public key, the friend is appended to the collection and the directory it
  makes and opens is named by \<open>id2str\<close> of the key: 64 characters of the upper-case
  digits \<open>0123456789ABCDEF\<close>. The lower-case form of that name is what
  \<open>id2str\<close> of ratatox.c gives for the same key.
\<close>

theorem friendcreate_directory_name:
  assumes "friendcreate env frnum w = Inr w'"
    and "length (fe_public_key env) = TOX_CLIENT_ID_SIZE"
  shows "\<exists>f evs. friendhead w' = friendhead w @ [f] \<and>
           f_id f = fe_public_key env \<and>
           f_idstr f = id2str (f_id f) \<and>
           trace w' = trace w @ Mkdir (f_idstr f) # Opendir (f_idstr f) # evs \<and>
           length (f_idstr f) = 64 \<and>
           set (f_idstr f) \<subseteq> set ''0123456789ABCDEF'' \<and>
           map tolower (f_idstr f) = id2str_ratatox (f_id f)"
proof -
  from friendcreate_Inr [OF assms(1)] obtain f evs where
    w': "w' = emit (Mkdir (id2str (fe_public_key env)) # Opendir (id2str (fe_public_key env)) # evs)
               (w\<lparr>friendhead := friendhead w @ [f]\<rparr>)"
    and f: "f_id f = fe_public_key env" "f_idstr f = id2str (fe_public_key env)"
    by blast
  have "length (id2str (fe_public_key env)) = 64"
    using assms(2)
    by (simp add: id2str_def length_id2str_loop TOX_CLIENT_ID_SIZE_def TOX_PUBLIC_KEY_SIZE_def)
  moreover have "set (id2str (fe_public_key env)) \<subseteq> set ''0123456789ABCDEF''"
    using id2str_loop_hex [of "take TOX_CLIENT_ID_SIZE (fe_public_key env)"]
    by (simp add: id2str_def hex_def)
  moreover have "map tolower (id2str (fe_public_key env)) = id2str_ratatox (fe_public_key env)"
    by (simp add: id2str_def id2str_ratatox_def tolower_id2str_loop)
  ultimately show ?thesis
    using w' f by (intro exI [of _ f] exI [of _ evs]) (simp add: emit_def)
qed

lemma id2str_ab: "id2str (replicate 32 0xAB) = ''ABABABABABABABABABABABABABABABABABABABABABABABABABABABABABABABAB''"
  by code_simp

lemma id2str_ratatox_ab: "id2str_ratatox (replicate 32 0xAB) = ''abababababababababababababababababababababababababababababababab''"
  by code_simp

lemma friendcreate_example:
  "\<exists>w'. friendcreate friend_env0 7 (world0\<lparr>friendhead := []\<rparr>) = Inr w'"
  by (simp add: friendcreate_def friend_env0_def Let_def ffiles_def fiforeset_ok fifoopen_def)

theorem friendcreate_directory_name_witness:
  "length (fe_public_key friend_env0) = TOX_CLIENT_ID_SIZE \<and>
   (\<exists>w'. friendcreate friend_env0 7 (world0\<lparr>friendhead := []\<rparr>) = Inr w' \<and>
      (\<exists>f evs. friendhead w' = [f] \<and> f_id f = replicate 32 0xAB \<and>
         f_idstr f = ''ABABABABABABABABABABABABABABABABABABABABABABABABABABABABABABABAB'' \<and>
         trace w' = Mkdir ''ABABABABABABABABABABABABABABABABABABABABABABABABABABABABABABABAB'' # Opendir ''ABABABABABABABABABABABABABABABABABABABABABABABABABABABABABABABAB'' # evs))"
proof -
  have k: "length (fe_public_key friend_env0) = TOX_CLIENT_ID_SIZE"
    by (simp add: friend_env0_def TOX_CLIENT_ID_SIZE_def TOX_PUBLIC_KEY_SIZE_def)
  obtain w' where w': "friendcreate friend_env0 7 (world0\<lparr>friendhead := []\<rparr>) = Inr w'"
    using friendcreate_example by blast
  have pk: "fe_public_key friend_env0 = replicate 32 0xAB"
    by (simp add: friend_env0_def)
  show ?thesis
    using friendcreate_directory_name [OF w' k] k w' id2str_ab
    by (auto simp: pk world0_def)
qed

text \<open>
  C9 as stated fails: for the key of 32 bytes \<open>0xAB\<close> the friend's directory is
  named with the upper-case digits \<open>AB\<close>, not with the lower-case encoding of the
  key.
\<close>

theorem friendcreate_uppercase_counterexample:
  "\<not> isl (friendcreate friend_env0 7 (world0\<lparr>friendhead := []\<rparr>)) \<and>
   map f_idstr (friendhead (projr (friendcreate friend_env0 7 (world0\<lparr>friendhead := []\<rparr>))))
     = [''ABABABABABABABABABABABABABABABABABABABABABABABABABABABABABABABAB''] \<and>
   hd (trace (projr (friendcreate friend_env0 7 (world0\<lparr>friendhead := []\<rparr>)))) = Mkdir ''ABABABABABABABABABABABABABABABABABABABABABABABABABABABABABABABAB'' \<and>
   id2str_ratatox (replicate 32 0xAB) = ''abababababababababababababababababababababababababababababababab''"
proof -
  obtain w' where w': "friendcreate friend_env0 7 (world0\<lparr>friendhead := []\<rparr>) = Inr w'"
    using friendcreate_example by blast
  have pk: "fe_public_key friend_env0 = replicate 32 0xAB"
    by (simp add: friend_env0_def)
  from friendcreate_Inr [OF w'] show ?thesis
    using w' id2str_ab id2str_ratatox_ab
    by (auto simp: pk world0_def emit_def)
qed

section \<open>Properties of the request ledger\<close>

lemma emit_Nil: "emit [] w = w"
  by (simp add: emit_def)

lemma set_req_fd_same: "set_req_fd i (req_fd (reqhead w ! i)) w = w"
  by (simp add: set_req_fd_def)

lemma datasave_Inr:
  "datasave env = Inr evs \<Longrightarrow>
   \<exists>mid. evs = Open_savefile # mid @ [Write_savefile (sys_rv (sv_open env))
                 (if sv_encrypt env then sv_size env + sv_extra env else sv_size env),
               Fsync (sys_rv (sv_open env)), Close (sys_rv (sv_open env))]"
  by (auto simp: datasave_def Let_def eprintf_def split: if_splits)

text \<open>
  C1, as amended. For the pending request at position \<open>i\<close> of the ledger, when
  exactly one byte \<open>c\<close> is read from its FIFO: any byte other than \<open>'0'\<close> and
  \<open>'1'\<close> leaves the state as it is (the request in the ledger, its FIFO open, no
  friend added or deleted). For \<open>'0'\<close> and for \<open>'1'\<close> the transport's
  add-without-request is invoked first; when it fails, the FIFO is reset and the
  request stays in the ledger. When it succeeds, \<open>'0'\<close> deletes the transport's friend
  entry and \<open>'1'\<close> creates the friend with its directory and saves the state, and in
  both cases the FIFO is unlinked and closed and the request removed (unless
  \<open>friendcreate\<close> or \<open>datasave\<close> ends the process). A \<open>friendcreate\<close> that
  returns has appended the friend and made and opened its directory; a \<open>datasave\<close>
  that returns has opened the save file and synced it.
\<close>

theorem request_step_decision:
  assumes "rq_isset env"
    and "fiforead (rq_reads env) (rq_reset env) (slot_fd (gslots w ! REQUEST) ! OUT)
           (req_fd (reqhead w ! i))
           \<lparr>ftype = NONE, fname = req_idstr (reqhead w ! i), fflags = [O_RDONLY, O_NONBLOCK]\<rparr> 1
         = Some (Inr (1, [c], fd', evr))"
  shows
    "(c \<noteq> CHR ''0'' \<and> c \<noteq> CHR ''1'' \<longrightarrow> request_step env i w = Some (Inr (False, w))) \<and>
     ((c = CHR ''0'' \<or> c = CHR ''1'') \<and> rq_add env < 0 \<longrightarrow>
        request_step env i w =
          (case fiforeset (rq_reset env) (slot_fd (gslots w ! REQUEST) ! OUT)
                  (req_fd (reqhead w ! i))
                  \<lparr>ftype = NONE, fname = req_idstr (reqhead w ! i),
                     fflags = [O_RDONLY, O_NONBLOCK]\<rparr> of
             Inl e \<Rightarrow> Some (Inl e)
           | Inr (fd2, evs) \<Rightarrow>
               Some (Inr (False,
                 emit (Tox_friend_add_norequest (req_id (reqhead w ! i))
                       # Weprintf ''Failed to add friend %s\<newline>'' [AStr (req_idstr (reqhead w ! i))]
                       # evs)
                   (set_req_fd i fd2 w))))) \<and>
     (c = CHR ''0'' \<and> 0 \<le> rq_add env \<longrightarrow>
        request_step env i w =
          Some (Inr (True,
            remove_request i
              (emit [Tox_friend_add_norequest (req_id (reqhead w ! i)),
                     Tox_friend_delete (rq_add env),
                     Logmsg ''Request : %s > Rejected\<newline>'' [AStr (req_idstr (reqhead w ! i))],
                     Unlinkat (slot_fd (gslots w ! REQUEST) ! OUT) (req_idstr (reqhead w ! i)),
                     Close (req_fd (reqhead w ! i))] w)))) \<and>
     (c = CHR ''1'' \<and> 0 \<le> rq_add env \<longrightarrow>
        request_step env i w =
          (case friendcreate (rq_friend env) (rq_add env)
                  (emit [Tox_friend_add_norequest (req_id (reqhead w ! i))] w) of
             Inl e \<Rightarrow> Some (Inl e)
           | Inr w1 \<Rightarrow>
               (case datasave (rq_save env) of
                  Inl e \<Rightarrow> Some (Inl e)
                | Inr evs \<Rightarrow>
                    Some (Inr (True,
                      remove_request i
                        (emit (Logmsg ''Request : %s > Accepted\<newline>''
                                 [AStr (req_idstr (reqhead w ! i))]
                               # evs
                               @ [Unlinkat (slot_fd (gslots w ! REQUEST) ! OUT)
                                    (req_idstr (reqhead w ! i)),
                                  Close (req_fd (reqhead w ! i))]) w1)))))) \<and>
     (friendcreate (rq_friend env) (rq_add env)
        (emit [Tox_friend_add_norequest (req_id (reqhead w ! i))] w) = Inr w1 \<longrightarrow>
        (\<exists>f fes. friendhead w1 = friendhead w @ [f] \<and> reqhead w1 = reqhead w \<and>
           f_num f = word_of_int (rq_add env) \<and>
           trace w1 = trace w @ Tox_friend_add_norequest (req_id (reqhead w ! i))
                        # Mkdir (f_idstr f) # Opendir (f_idstr f) # fes)) \<and>
     (datasave (rq_save env) = Inr evs \<longrightarrow>
        hd evs = Open_savefile \<and> Fsync (sys_rv (sv_open (rq_save env))) \<in> set evs)"
proof -
  from fiforead_pos [OF assms(2)] have fd: "fd' = req_fd (reqhead w ! i)" and ev: "evr = []"
    by simp_all
  note r = assms(2) [unfolded fd ev]
  have step:
    "(c \<noteq> CHR ''0'' \<and> c \<noteq> CHR ''1'' \<longrightarrow> request_step env i w = Some (Inr (False, w))) \<and>
     ((c = CHR ''0'' \<or> c = CHR ''1'') \<and> rq_add env < 0 \<longrightarrow>
        request_step env i w =
          (case fiforeset (rq_reset env) (slot_fd (gslots w ! REQUEST) ! OUT)
                  (req_fd (reqhead w ! i))
                  \<lparr>ftype = NONE, fname = req_idstr (reqhead w ! i),
                     fflags = [O_RDONLY, O_NONBLOCK]\<rparr> of
             Inl e \<Rightarrow> Some (Inl e)
           | Inr (fd2, evs) \<Rightarrow>
               Some (Inr (False,
                 emit (Tox_friend_add_norequest (req_id (reqhead w ! i))
                       # Weprintf ''Failed to add friend %s\<newline>'' [AStr (req_idstr (reqhead w ! i))]
                       # evs)
                   (set_req_fd i fd2 w))))) \<and>
     (c = CHR ''0'' \<and> 0 \<le> rq_add env \<longrightarrow>
        request_step env i w =
          Some (Inr (True,
            remove_request i
              (emit [Tox_friend_add_norequest (req_id (reqhead w ! i)),
                     Tox_friend_delete (rq_add env),
                     Logmsg ''Request : %s > Rejected\<newline>'' [AStr (req_idstr (reqhead w ! i))],
                     Unlinkat (slot_fd (gslots w ! REQUEST) ! OUT) (req_idstr (reqhead w ! i)),
                     Close (req_fd (reqhead w ! i))] w)))) \<and>
     (c = CHR ''1'' \<and> 0 \<le> rq_add env \<longrightarrow>
        request_step env i w =
          (case friendcreate (rq_friend env) (rq_add env)
                  (emit [Tox_friend_add_norequest (req_id (reqhead w ! i))] w) of
             Inl e \<Rightarrow> Some (Inl e)
           | Inr w1 \<Rightarrow>
               (case datasave (rq_save env) of
                  Inl e \<Rightarrow> Some (Inl e)
                | Inr evs \<Rightarrow>
                    Some (Inr (True,
                      remove_request i
                        (emit (Logmsg ''Request : %s > Accepted\<newline>''
                                 [AStr (req_idstr (reqhead w ! i))]
                               # evs
                               @ [Unlinkat (slot_fd (gslots w ! REQUEST) ! OUT)
                                    (req_idstr (reqhead w ! i)),
                                  Close (req_fd (reqhead w ! i))]) w1))))))"
    using assms(1) r
    by (simp add: request_step_def Let_def emit_Nil set_req_fd_same request_accept_def
        request_reject_def emit_def remove_request_def set_req_fd_def
        split: sum.splits prod.splits)
  have fc: "friendcreate (rq_friend env) (rq_add env)
        (emit [Tox_friend_add_norequest (req_id (reqhead w ! i))] w) = Inr w1 \<longrightarrow>
        (\<exists>f fes. friendhead w1 = friendhead w @ [f] \<and> reqhead w1 = reqhead w \<and>
           f_num f = word_of_int (rq_add env) \<and>
           trace w1 = trace w @ Tox_friend_add_norequest (req_id (reqhead w ! i))
                        # Mkdir (f_idstr f) # Opendir (f_idstr f) # fes)"
  proof
    assume "friendcreate (rq_friend env) (rq_add env)
        (emit [Tox_friend_add_norequest (req_id (reqhead w ! i))] w) = Inr w1"
    from friendcreate_Inr [OF this] obtain f fes where
      "w1 = emit (Mkdir (id2str (fe_public_key (rq_friend env)))
                  # Opendir (id2str (fe_public_key (rq_friend env))) # fes)
              ((emit [Tox_friend_add_norequest (req_id (reqhead w ! i))] w)
                 \<lparr>friendhead :=
                    friendhead (emit [Tox_friend_add_norequest (req_id (reqhead w ! i))] w) @ [f]\<rparr>)"
      and "f_idstr f = id2str (fe_public_key (rq_friend env))"
      and "f_num f = word_of_int (rq_add env)"
      by blast
    then show "\<exists>f fes. friendhead w1 = friendhead w @ [f] \<and> reqhead w1 = reqhead w \<and>
           f_num f = word_of_int (rq_add env) \<and>
           trace w1 = trace w @ Tox_friend_add_norequest (req_id (reqhead w ! i))
                        # Mkdir (f_idstr f) # Opendir (f_idstr f) # fes"
      by (intro exI [of _ f] exI [of _ fes]) (simp add: emit_def)
  qed
  have ds: "datasave (rq_save env) = Inr evs \<longrightarrow>
        hd evs = Open_savefile \<and> Fsync (sys_rv (sv_open (rq_save env))) \<in> set evs"
    using datasave_Inr [of "rq_save env" evs] by auto
  show ?thesis using step fc ds by blast
qed

lemma friendcreate_env0_ex: "\<exists>w'. friendcreate friend_env0 n w = Inr w'"
  by (simp add: friendcreate_def friend_env0_def Let_def ffiles_def fiforeset_ok fifoopen_def)

lemma friendcreate_env0:
  "\<exists>f evs. friendcreate friend_env0 n w = Inr (emit evs (w\<lparr>friendhead := friendhead w @ [f]\<rparr>))
            \<and> f_num f = word_of_int n"
proof -
  obtain w' where w': "friendcreate friend_env0 n w = Inr w'"
    using friendcreate_env0_ex by blast
  from friendcreate_Inr [OF w'] w' show ?thesis by auto
qed

lemma datasave_ok:
  "datasave save_ok =
     Inr [Open_savefile, Tox_get_savedata, Write_savefile 20 100, Fsync 20, Close 20]"
  by (simp add: datasave_def save_ok_def)

lemma world0_sel:
  "slot_fd (gslots world0 ! REQUEST) ! OUT = 24" "reqhead world0 ! 0 = request_cd"
  "req_fd request_cd = 50"
  by (simp_all add: world0_def slots0_def REQUEST_def OUT_def request_cd_def)

theorem request_step_decision_witness:
  "rq_isset (req_env0 CHR ''1'' 3) \<and>
   fiforead (rq_reads (req_env0 CHR ''1'' 3)) (rq_reset (req_env0 CHR ''1'' 3))
     (slot_fd (gslots world0 ! REQUEST) ! OUT) (req_fd (reqhead world0 ! 0))
     \<lparr>ftype = NONE, fname = req_idstr (reqhead world0 ! 0), fflags = [O_RDONLY, O_NONBLOCK]\<rparr> 1
     = Some (Inr (1, ''1'', 50, [])) \<and>
   request_step (req_env0 CHR ''x'' 3) 0 world0 = Some (Inr (False, world0)) \<and>
   request_step (req_env0 CHR ''0'' 3) 0 world0 =
     Some (Inr (True, world0\<lparr>reqhead := [],
       trace := [Tox_friend_add_norequest (replicate 32 0xCD), Tox_friend_delete 3,
                 Logmsg ''Request : %s > Rejected\<newline>'' [AStr (req_idstr request_cd)],
                 Unlinkat 24 (req_idstr request_cd), Close 50]\<rparr>)) \<and>
   (\<exists>w'. request_step (req_env0 CHR ''1'' 3) 0 world0 = Some (Inr (True, w')) \<and>
          reqhead w' = [] \<and> map f_num (friendhead w') = [7, 3])"
proof -
  have i: "\<And>c r. rq_isset (req_env0 c r)" by (simp add: req_env0_def)
  have rd: "\<And>c r. fiforead (rq_reads (req_env0 c r)) (rq_reset (req_env0 c r))
     (slot_fd (gslots world0 ! REQUEST) ! OUT) (req_fd (reqhead world0 ! 0))
     \<lparr>ftype = NONE, fname = req_idstr (reqhead world0 ! 0), fflags = [O_RDONLY, O_NONBLOCK]\<rparr> 1
     = Some (Inr (1, [c], 50, []))"
    by (simp add: req_env0_def world0_sel)
  have add: "\<And>c r. rq_add (req_env0 c r) = r" "\<And>c r. rq_friend (req_env0 c r) = friend_env0"
    "\<And>c r. rq_save (req_env0 c r) = save_ok"
    by (simp_all add: req_env0_def)
  obtain f evs where fc:
    "friendcreate friend_env0 3 (emit [Tox_friend_add_norequest (req_id (reqhead world0 ! 0))] world0)
     = Inr (emit evs ((emit [Tox_friend_add_norequest (req_id (reqhead world0 ! 0))] world0)
              \<lparr>friendhead := friendhead (emit [Tox_friend_add_norequest (req_id (reqhead world0 ! 0))] world0) @ [f]\<rparr>))"
    "f_num f = 3"
    using friendcreate_env0 [of 3 "emit [Tox_friend_add_norequest (req_id (reqhead world0 ! 0))] world0"]
    by auto
  have x: "request_step (req_env0 CHR ''x'' 3) 0 world0 = Some (Inr (False, world0))"
    using request_step_decision [OF i rd, of "CHR ''x''" 3] by simp
  have z: "request_step (req_env0 CHR ''0'' 3) 0 world0 =
     Some (Inr (True, world0\<lparr>reqhead := [],
       trace := [Tox_friend_add_norequest (replicate 32 0xCD), Tox_friend_delete 3,
                 Logmsg ''Request : %s > Rejected\<newline>'' [AStr (req_idstr request_cd)],
                 Unlinkat 24 (req_idstr request_cd), Close 50]\<rparr>))"
    using request_step_decision [OF i rd, of "CHR ''0''" 3]
    by (simp add: add world0_sel remove_request_def emit_def) (simp add: world0_def request_cd_def)
  have o: "\<exists>w'. request_step (req_env0 CHR ''1'' 3) 0 world0 = Some (Inr (True, w')) \<and>
          reqhead w' = [] \<and> map f_num (friendhead w') = [7, 3]"
    using request_step_decision [OF i rd, of "CHR ''1''" 3] fc
    by (simp add: add datasave_ok remove_request_def emit_def)
       (simp add: world0_def friend7_def)
  show ?thesis using i rd x z o by simp
qed

text \<open>
  C1 as stated fails: the byte \<open>'0'\<close> is read from the request's FIFO and the
  transport's add-without-request fails; no friend entry is deleted and the request
  stays in the ledger, its FIFO recreated and open as descriptor 9.
\<close>

theorem request_step_add_fails_counterexample:
  "request_step (req_env0 CHR ''0'' (- 1)) 0 world0 =
     Some (Inr (False, world0\<lparr>reqhead := [request_cd\<lparr>req_fd := 9\<rparr>],
       trace := [Tox_friend_add_norequest (replicate 32 0xCD),
                 Weprintf ''Failed to add friend %s\<newline>'' [AStr (req_idstr request_cd)],
                 Unlinkat 24 (req_idstr request_cd), Close 50,
                 Mkfifoat 24 (req_idstr request_cd),
                 Openat 24 (req_idstr request_cd) [O_RDONLY, O_NONBLOCK]]\<rparr>))"
  by (simp add: request_step_def req_env0_def Let_def world0_sel fiforeset_ok emit_def
      set_req_fd_def)
     (simp add: world0_def request_cd_def)

section \<open>Properties of the transfer engine\<close>
































section \<open>Properties of the global slots\<close>

lemma ustate_scan_None: "buf \<notin> set us \<Longrightarrow> ustate_scan buf i us = None"
  by (induction us arbitrary: i) auto

lemma set_slot_fd_same: "set_slot_fd s m (slot_fd (gslots w ! s) ! m) w = w"
  by (simp add: set_slot_fd_def)

lemma world0_slots:
  "slot_dirfd (gslots world0 ! STATE) = 18" "slot_fd (gslots world0 ! STATE) = [19, 20, 21]"
  "slot_dirfd (gslots world0 ! REQUEST) = 22" "slot_fd (gslots world0 ! REQUEST) = [23, 24, 25]"
  "slot_dirfd (gslots world0 ! NOSPAM) = 26" "slot_fd (gslots world0 ! NOSPAM) = [27, 28, 29]"
  "trace world0 = []" "idfd world0 = 5"
  by (simp_all add: world0_def slots0_def STATE_def REQUEST_def NOSPAM_def)

lemma ustate_foo: "cstr (strip_newline ''foo\<newline>'') = ''foo''" "''foo'' \<notin> set ustate"
  by (simp_all add: cstr_def strip_newline_def ustate_def)

text \<open>
  C6, as amended. On a validation failure of a line read from a global slot's \<open>in\<close>
  FIFO, an error message is written to that slot's \<open>err\<close> file: \<open>invalid\<close> for a
  state word that is not in the enumeration, \<open>Invalid friend ID\<close> for a friend
  request whose first word has not twice the address size in characters, and a
  message about invalid characters for a nospam with a character outside
  \<open>[0-9A-F]\<close>. Only the nospam handler then resets its input FIFO; the state and
  request handlers return with the world otherwise unchanged, the FIFO and its
  descriptor as they were.
\<close>

theorem validation_failure_effects:
  "(fiforead (st_reads e1) (st_reset e1) (slot_dirfd (gslots w ! STATE))
       (slot_fd (gslots w ! STATE) ! IN) (gfiles ! IN) (PIPE_BUF - 1)
      = Some (Inr (n1, d1, fd1, ev1)) \<and> 0 < n1 \<and> cstr (strip_newline d1) \<notin> set ustate \<longrightarrow>
    setuserstate e1 w =
      Some (Inr (emit [Ftruncate (slot_fd (gslots w ! STATE) ! ERR),
                       Lseek (slot_fd (gslots w ! STATE) ! ERR),
                       Dprintf (slot_fd (gslots w ! STATE) ! ERR) ''invalid\<newline>'' [],
                       Weprintf ''Invalid state: %s\<newline>'' [AStr (cstr (strip_newline d1))]] w))) \<and>
   (fiforead (fq_reads e2) (fq_reset e2) (slot_dirfd (gslots w ! REQUEST))
       (slot_fd (gslots w ! REQUEST) ! IN) (gfiles ! IN) (PIPE_BUF - 1)
      = Some (Inr (n2, d2, fd2, ev2)) \<and> 0 < n2 \<and>
    length (takeWhile (\<lambda>c. \<not> isspace c) (cstr d2)) \<noteq> 2 * TOX_FRIEND_ADDRESS_SIZE \<longrightarrow>
    sendfriendreq e2 w =
      Some (Inr (emit [Ftruncate (slot_fd (gslots w ! REQUEST) ! ERR),
                       Lseek (slot_fd (gslots w ! REQUEST) ! ERR),
                       Dprintf (slot_fd (gslots w ! REQUEST) ! ERR) ''Invalid friend ID\<newline>'' []] w))) \<and>
   (fiforead (ns_reads e3) (ns_reset_eof e3) (slot_dirfd (gslots w ! NOSPAM))
       (slot_fd (gslots w ! NOSPAM) ! IN) (gfiles ! IN) 8
      = Some (Inr (n3, d3, fd3, ev3)) \<and> 0 < n3 \<and> list_ex nospam_invalid (strip_newline d3) \<longrightarrow>
    setnospam e3 w =
      (case fiforeset (ns_reset e3) (slot_dirfd (gslots w ! NOSPAM))
              (slot_fd (gslots w ! NOSPAM) ! IN) (gfiles ! IN) of
         Inl e \<Rightarrow> Some (Inl e)
       | Inr (fd', evs) \<Rightarrow>
           Some (Inr (emit (Dprintf (slot_fd (gslots w ! NOSPAM) ! ERR)
                              ''Input contains invalid characters ![0-9, A-F]\<newline>'' [] # evs)
                        (set_slot_fd NOSPAM IN fd' w)))))"
proof (intro conjI impI)
  assume a: "fiforead (st_reads e1) (st_reset e1) (slot_dirfd (gslots w ! STATE))
       (slot_fd (gslots w ! STATE) ! IN) (gfiles ! IN) (PIPE_BUF - 1)
      = Some (Inr (n1, d1, fd1, ev1)) \<and> 0 < n1 \<and> cstr (strip_newline d1) \<notin> set ustate"
  then have p: "fd1 = slot_fd (gslots w ! STATE) ! IN" "ev1 = []"
    using fiforead_pos by blast+
  from a show "setuserstate e1 w =
      Some (Inr (emit [Ftruncate (slot_fd (gslots w ! STATE) ! ERR),
                       Lseek (slot_fd (gslots w ! STATE) ! ERR),
                       Dprintf (slot_fd (gslots w ! STATE) ! ERR) ''invalid\<newline>'' [],
                       Weprintf ''Invalid state: %s\<newline>'' [AStr (cstr (strip_newline d1))]] w))"
    unfolding p
    by (simp add: setuserstate_def Let_def set_slot_fd_same emit_Nil ustate_scan_None)
next
  assume a: "fiforead (fq_reads e2) (fq_reset e2) (slot_dirfd (gslots w ! REQUEST))
       (slot_fd (gslots w ! REQUEST) ! IN) (gfiles ! IN) (PIPE_BUF - 1)
      = Some (Inr (n2, d2, fd2, ev2)) \<and> 0 < n2 \<and>
    length (takeWhile (\<lambda>c. \<not> isspace c) (cstr d2)) \<noteq> 2 * TOX_FRIEND_ADDRESS_SIZE"
  then have p: "fd2 = slot_fd (gslots w ! REQUEST) ! IN" "ev2 = []"
    using fiforead_pos by blast+
  from a show "sendfriendreq e2 w =
      Some (Inr (emit [Ftruncate (slot_fd (gslots w ! REQUEST) ! ERR),
                       Lseek (slot_fd (gslots w ! REQUEST) ! ERR),
                       Dprintf (slot_fd (gslots w ! REQUEST) ! ERR) ''Invalid friend ID\<newline>'' []] w))"
    unfolding p
    by (simp add: sendfriendreq_def Let_def set_slot_fd_same emit_Nil mult.commute)
next
  assume a: "fiforead (ns_reads e3) (ns_reset_eof e3) (slot_dirfd (gslots w ! NOSPAM))
       (slot_fd (gslots w ! NOSPAM) ! IN) (gfiles ! IN) 8
      = Some (Inr (n3, d3, fd3, ev3)) \<and> 0 < n3 \<and> list_ex nospam_invalid (strip_newline d3)"
  then have p: "fd3 = slot_fd (gslots w ! NOSPAM) ! IN" "ev3 = []"
    using fiforead_pos by blast+
  from a show "setnospam e3 w =
      (case fiforeset (ns_reset e3) (slot_dirfd (gslots w ! NOSPAM))
              (slot_fd (gslots w ! NOSPAM) ! IN) (gfiles ! IN) of
         Inl e \<Rightarrow> Some (Inl e)
       | Inr (fd', evs) \<Rightarrow>
           Some (Inr (emit (Dprintf (slot_fd (gslots w ! NOSPAM) ! ERR)
                              ''Input contains invalid characters ![0-9, A-F]\<newline>'' [] # evs)
                        (set_slot_fd NOSPAM IN fd' w))))"
    unfolding p
    by (simp add: setnospam_def Let_def set_slot_fd_same emit_Nil split: sum.splits prod.splits)
qed

theorem validation_failure_effects_witness:
  "fiforead (st_reads (state_env0 ''foo\<newline>'')) (st_reset (state_env0 ''foo\<newline>''))
      (slot_dirfd (gslots world0 ! STATE)) (slot_fd (gslots world0 ! STATE) ! IN) (gfiles ! IN)
      (PIPE_BUF - 1) = Some (Inr (4, ''foo\<newline>'', 19, [])) \<and>
   cstr (strip_newline ''foo\<newline>'') \<notin> set ustate \<and>
   setuserstate (state_env0 ''foo\<newline>'') world0 =
     Some (Inr (world0\<lparr>trace := [Ftruncate 21, Lseek 21, Dprintf 21 ''invalid\<newline>'' [],
                                  Weprintf ''Invalid state: %s\<newline>'' [AStr ''foo'']]\<rparr>)) \<and>
   fiforead (fq_reads (freq_env0 ''abc hello\<newline>'')) (fq_reset (freq_env0 ''abc hello\<newline>''))
      (slot_dirfd (gslots world0 ! REQUEST)) (slot_fd (gslots world0 ! REQUEST) ! IN) (gfiles ! IN)
      (PIPE_BUF - 1) = Some (Inr (10, ''abc hello\<newline>'', 23, [])) \<and>
   length (takeWhile (\<lambda>c. \<not> isspace c) (cstr ''abc hello\<newline>'')) = 3 \<and>
   sendfriendreq (freq_env0 ''abc hello\<newline>'') world0 =
     Some (Inr (world0\<lparr>trace := [Ftruncate 25, Lseek 25,
                                  Dprintf 25 ''Invalid friend ID\<newline>'' []]\<rparr>)) \<and>
   fiforead (ns_reads (nospam_env0 ''xyz\<newline>'')) (ns_reset_eof (nospam_env0 ''xyz\<newline>''))
      (slot_dirfd (gslots world0 ! NOSPAM)) (slot_fd (gslots world0 ! NOSPAM) ! IN) (gfiles ! IN)
      8 = Some (Inr (4, ''xyz\<newline>'', 27, [])) \<and>
   list_ex nospam_invalid (strip_newline ''xyz\<newline>'') \<and>
   setnospam (nospam_env0 ''xyz\<newline>'') world0 =
     Some (Inr (world0\<lparr>gslots := slots0[NOSPAM := (slots0 ! NOSPAM)\<lparr>slot_fd := [9, 28, 29]\<rparr>],
       trace := [Dprintf 29 ''Input contains invalid characters ![0-9, A-F]\<newline>'' [],
                 Unlinkat 26 ''in'', Close 27, Mkfifoat 26 ''in'',
                 Openat 26 ''in'' [O_RDONLY, O_NONBLOCK]]\<rparr>))"
proof -
  have r1: "fiforead (st_reads (state_env0 ''foo\<newline>'')) (st_reset (state_env0 ''foo\<newline>''))
      (slot_dirfd (gslots world0 ! STATE)) (slot_fd (gslots world0 ! STATE) ! IN) (gfiles ! IN)
      (PIPE_BUF - 1) = Some (Inr (4, ''foo\<newline>'', 19, []))"
    by (simp add: state_env0_def world0_slots IN_def PIPE_BUF_def)
  have r2: "fiforead (fq_reads (freq_env0 ''abc hello\<newline>'')) (fq_reset (freq_env0 ''abc hello\<newline>''))
      (slot_dirfd (gslots world0 ! REQUEST)) (slot_fd (gslots world0 ! REQUEST) ! IN) (gfiles ! IN)
      (PIPE_BUF - 1) = Some (Inr (10, ''abc hello\<newline>'', 23, []))"
    by (simp add: freq_env0_def world0_slots IN_def PIPE_BUF_def)
  have r3: "fiforead (ns_reads (nospam_env0 ''xyz\<newline>'')) (ns_reset_eof (nospam_env0 ''xyz\<newline>''))
      (slot_dirfd (gslots world0 ! NOSPAM)) (slot_fd (gslots world0 ! NOSPAM) ! IN) (gfiles ! IN)
      8 = Some (Inr (4, ''xyz\<newline>'', 27, []))"
    by (simp add: nospam_env0_def world0_slots IN_def)
  have l2: "length (takeWhile (\<lambda>c. \<not> isspace c) (cstr ''abc hello\<newline>'')) = 3"
    by (simp add: cstr_def isspace_def)
  have v3: "list_ex nospam_invalid (strip_newline ''xyz\<newline>'')"
    by (simp add: strip_newline_def nospam_invalid_def)
  have rs: "ns_reset (nospam_env0 ''xyz\<newline>'') = reset_ok"
    by (simp add: nospam_env0_def)
  note t = validation_failure_effects [of "state_env0 ''foo\<newline>''" world0 4 "''foo\<newline>''" 19 "[]"
      "freq_env0 ''abc hello\<newline>''" 10 "''abc hello\<newline>''" 23 "[]"
      "nospam_env0 ''xyz\<newline>''" 4 "''xyz\<newline>''" 27 "[]"]
  have a: "setuserstate (state_env0 ''foo\<newline>'') world0 =
     Some (Inr (world0\<lparr>trace := [Ftruncate 21, Lseek 21, Dprintf 21 ''invalid\<newline>'' [],
                                  Weprintf ''Invalid state: %s\<newline>'' [AStr ''foo'']]\<rparr>))"
    using t [THEN conjunct1] r1 ustate_foo
    by (simp add: world0_slots ERR_def emit_def)
  have b: "sendfriendreq (freq_env0 ''abc hello\<newline>'') world0 =
     Some (Inr (world0\<lparr>trace := [Ftruncate 25, Lseek 25,
                                  Dprintf 25 ''Invalid friend ID\<newline>'' []]\<rparr>))"
    using t [THEN conjunct2, THEN conjunct1] r2 l2
    by (simp add: world0_slots ERR_def emit_def TOX_FRIEND_ADDRESS_SIZE_def TOX_ADDRESS_SIZE_def)
  have c: "setnospam (nospam_env0 ''xyz\<newline>'') world0 =
     Some (Inr (world0\<lparr>gslots := slots0[NOSPAM := (slots0 ! NOSPAM)\<lparr>slot_fd := [9, 28, 29]\<rparr>],
       trace := [Dprintf 29 ''Input contains invalid characters ![0-9, A-F]\<newline>'' [],
                 Unlinkat 26 ''in'', Close 27, Mkfifoat 26 ''in'',
                 Openat 26 ''in'' [O_RDONLY, O_NONBLOCK]]\<rparr>))"
    using t [THEN conjunct2, THEN conjunct2] r3 v3
    by (simp add: world0_slots ERR_def IN_def emit_def rs fiforeset_ok gfiles_def set_slot_fd_def)
       (simp add: world0_def slots0_def NOSPAM_def)
  show ?thesis using r1 r2 r3 l2 v3 ustate_foo a b c by simp
qed

text \<open>
  C6 as stated fails: the line \<open>abc hello\<close> on \<open>request/in\<close> has a first word of
  the wrong length; \<open>Invalid friend ID\<close> is written to \<open>err\<close>, and the input
  FIFO is not reset: nothing is unlinked or created and the slot's descriptors are as
  before.
\<close>

theorem sendfriendreq_no_reset_counterexample:
  "sendfriendreq (freq_env0 ''abc hello\<newline>'') world0 =
     Some (Inr (world0\<lparr>trace := [Ftruncate 25, Lseek 25,
                                  Dprintf 25 ''Invalid friend ID\<newline>'' []]\<rparr>))"
  by (simp add: sendfriendreq_def freq_env0_def world0_slots Let_def IN_def ERR_def gfiles_def
      PIPE_BUF_def cstr_def isspace_def TOX_FRIEND_ADDRESS_SIZE_def TOX_ADDRESS_SIZE_def
      set_slot_fd_same [of REQUEST IN world0, unfolded world0_slots IN_def, simplified]
      emit_def)

lemma char_of_hex_digits:
  "char_of (48::nat) = CHR ''0''" "char_of (49::nat) = CHR ''1''" "char_of (50::nat) = CHR ''2''"
  "char_of (51::nat) = CHR ''3''" "char_of (52::nat) = CHR ''4''" "char_of (53::nat) = CHR ''5''"
  "char_of (54::nat) = CHR ''6''" "char_of (55::nat) = CHR ''7''" "char_of (56::nat) = CHR ''8''"
  "char_of (57::nat) = CHR ''9''" "char_of (65::nat) = CHR ''A''" "char_of (66::nat) = CHR ''B''"
  "char_of (67::nat) = CHR ''C''" "char_of (68::nat) = CHR ''D''" "char_of (69::nat) = CHR ''E''"
  "char_of (70::nat) = CHR ''F''"
  by (simp_all add: char_of_eq_iff)

lemma nospam_valid_hex: "c \<in> set hex \<Longrightarrow> \<not> nospam_invalid c"
  by (auto simp: nospam_invalid_def hex_def)

lemma nospam_valid_range:
  assumes "\<not> nospam_invalid c"
  shows "c \<in> set hex"
proof -
  let ?k = "of_char c :: nat"
  from assms have "?k \<in> {48, 49, 50, 51, 52, 53, 54, 55, 56, 57, 65, 66, 67, 68, 69, 70}"
    by (simp add: nospam_invalid_def Let_def) arith
  then have "char_of ?k \<in> char_of ` {48, 49, 50, 51, 52, 53, 54, 55, 56, 57, 65, 66, 67, 68, 69, 70 :: nat}"
    by (rule imageI)
  then show ?thesis by (simp add: char_of_hex_digits hex_def)
qed

lemma nospam_valid_iff: "(\<not> list_ex nospam_invalid s) = (set s \<subseteq> set hex)"
  unfolding list_ex_iff subset_iff using nospam_valid_hex nospam_valid_range by blast

lemma cstr_valid: "\<not> list_ex nospam_invalid s \<Longrightarrow> cstr s = s"
  by (auto simp: cstr_def list_ex_iff nospam_invalid_def takeWhile_eq_all_conv)

lemma length_strip_newline: "length (strip_newline d) \<le> length d"
  by (simp add: strip_newline_def)

lemma length_hex_bytes: "length (concat (map printf_02X bs)) = 2 * length bs"
  by (induction bs) (simp_all add: printf_02X_def)

lemma length_printf_08X: "length (printf_08X v) = 8"
  by (simp add: printf_08X_def)

lemma address_split:
  assumes "length a = 38"
  shows "take 38 a = take 32 a @ take 4 (drop 32 a) @ take 2 (drop 36 a)"
proof -
  have "take 32 a @ (take 4 (drop 32 a) @ drop 4 (drop 32 a)) = a"
    by (simp only: append_take_drop_id)
  then have "take 32 a @ take 4 (drop 32 a) @ drop 36 a = a" by simp
  moreover have "take 2 (drop 36 a) = drop 36 a" using assms by simp
  moreover have "take 38 a = a" using assms by simp
  ultimately show ?thesis by simp
qed

lemma id_text_layout:
  assumes "length a = TOX_FRIEND_ADDRESS_SIZE"
    and "concat (map printf_02X (address_nospam a)) = printf_08X v"
  shows "id_text a = concat (map printf_02X (take TOX_PUBLIC_KEY_SIZE a)) @ printf_08X v
                       @ concat (map printf_02X (address_checksum a))"
    and "drop 68 (id_text a) = drop 4 (printf_08X v) @ concat (map printf_02X (address_checksum a))"
    and "length (concat (map printf_02X (take TOX_PUBLIC_KEY_SIZE a))) = 64"
proof -
  have l: "length a = 38"
    using assms(1) by (simp add: TOX_FRIEND_ADDRESS_SIZE_def TOX_ADDRESS_SIZE_def)
  have "id_text a = concat (map printf_02X (take 32 a @ take 4 (drop 32 a) @ take 2 (drop 36 a)))"
    using address_split [OF l]
    by (simp add: id_text_def TOX_FRIEND_ADDRESS_SIZE_def TOX_ADDRESS_SIZE_def)
  then show e: "id_text a = concat (map printf_02X (take TOX_PUBLIC_KEY_SIZE a)) @ printf_08X v
                       @ concat (map printf_02X (address_checksum a))"
    using assms(2)
    by (simp add: address_nospam_def address_checksum_def TOX_PUBLIC_KEY_SIZE_def)
  show k: "length (concat (map printf_02X (take TOX_PUBLIC_KEY_SIZE a))) = 64"
    using l by (simp add: length_hex_bytes TOX_PUBLIC_KEY_SIZE_def)
  then show "drop 68 (id_text a) = drop 4 (printf_08X v) @ concat (map printf_02X (address_checksum a))"
    by (simp add: e length_printf_08X)
qed

text \<open>
  C7, as amended. A write to \<open>nospam/in\<close> of which \<open>setnospam\<close> reads at most 8
  bytes is accepted exactly when, after a trailing newline is stripped, every character
  read is in \<open>[0-9A-F]\<close>; the input may be shorter than 8 characters, also empty.
  An input with another character produces a write to \<open>err\<close> and no call of
  \<open>tox_self_set_nospam\<close>. On acceptance the value \<open>strtoul\<close> reads is set as the
  nospam, the state is saved, the value is written to \<open>nospam/out\<close> with the format
  \<open>%08X\<close>, and the \<open>id\<close> file is rewritten with the address the transport
  reports, each byte with the format \<open>%02X\<close>. When the nospam field of that
  38-byte address reads in hexadecimal as the value written to \<open>nospam/out\<close>, the
  hexadecimal characters of \<open>id\<close> are the 64 of the public key, then the 8 of the
  new nospam (characters 65 to 72), then the 4 of the checksum; the last 8 are the last 4
  of the nospam followed by the checksum. In both cases the input FIFO is reset.
\<close>

theorem setnospam_accepts:
  assumes "fiforead (ns_reads env) (ns_reset_eof env) (slot_dirfd (gslots w ! NOSPAM))
             (slot_fd (gslots w ! NOSPAM) ! IN) (gfiles ! IN) 8 = Some (Inr (n, d, fd', evr))"
    and "0 < n"
  shows
    "length (strip_newline d) \<le> 8 \<and>
     (\<not> list_ex nospam_invalid (strip_newline d))
       = (set (strip_newline d) \<subseteq> set hex) \<and>
     (list_ex nospam_invalid (strip_newline d) \<longrightarrow>
        setnospam env w =
          (case fiforeset (ns_reset env) (slot_dirfd (gslots w ! NOSPAM))
                  (slot_fd (gslots w ! NOSPAM) ! IN) (gfiles ! IN) of
             Inl e \<Rightarrow> Some (Inl e)
           | Inr (fd2, evs2) \<Rightarrow>
               Some (Inr (emit (Dprintf (slot_fd (gslots w ! NOSPAM) ! ERR)
                                  ''Input contains invalid characters ![0-9, A-F]\<newline>'' []
                                # evs2)
                            (set_slot_fd NOSPAM IN fd2 w))))) \<and>
     (\<not> list_ex nospam_invalid (strip_newline d) \<longrightarrow>
        setnospam env w =
          (case datasave (ns_save env) of
             Inl e \<Rightarrow> Some (Inl e)
           | Inr evs \<Rightarrow>
               (case fiforeset (ns_reset env) (slot_dirfd (gslots w ! NOSPAM))
                       (slot_fd (gslots w ! NOSPAM) ! IN) (gfiles ! IN) of
                  Inl e \<Rightarrow> Some (Inl e)
                | Inr (fd2, evs2) \<Rightarrow>
                    Some (Inr (emit
                      ([Tox_self_set_nospam (of_nat (strtoul16 (strip_newline d)))] @ evs
                       @ [Logmsg ''Nospam > %08X\<newline>''
                            [AU32 (of_nat (strtoul16 (strip_newline d)))],
                          Ftruncate (slot_fd (gslots w ! NOSPAM) ! OUT),
                          Lseek (slot_fd (gslots w ! NOSPAM) ! OUT),
                          Dprintf (slot_fd (gslots w ! NOSPAM) ! OUT) ''%08X\<newline>''
                            [AU32 (of_nat (strtoul16 (strip_newline d)))],
                          Tox_self_get_address, Ftruncate (idfd w), Lseek (idfd w)]
                       @ map (\<lambda>b. Dprintf (idfd w) ''%02X'' [AByte b])
                           (take TOX_FRIEND_ADDRESS_SIZE (ns_address env))
                       @ [Dprintf (idfd w) ''\<newline>'' []] @ evs2)
                      (set_slot_fd NOSPAM IN fd2 w)))))) \<and>
     (length (ns_address env) = TOX_FRIEND_ADDRESS_SIZE \<and>
      concat (map printf_02X (address_nospam (ns_address env)))
        = printf_08X (of_nat (strtoul16 (strip_newline d))) \<longrightarrow>
        id_text (ns_address env) =
          concat (map printf_02X (take TOX_PUBLIC_KEY_SIZE (ns_address env)))
          @ printf_08X (of_nat (strtoul16 (strip_newline d)))
          @ concat (map printf_02X (address_checksum (ns_address env))) \<and>
        length (concat (map printf_02X (take TOX_PUBLIC_KEY_SIZE (ns_address env)))) = 64 \<and>
        length (printf_08X (of_nat (strtoul16 (strip_newline d)))) = 8 \<and>
        drop 68 (id_text (ns_address env)) =
          drop 4 (printf_08X (of_nat (strtoul16 (strip_newline d))))
          @ concat (map printf_02X (address_checksum (ns_address env))))"
proof -
  from fiforead_pos [OF assms] have p: "fd' = slot_fd (gslots w ! NOSPAM) ! IN" "evr = []"
    and len: "length d \<le> 8"
    by simp_all
  note r = assms(1) [unfolded p]
  have l: "length (strip_newline d) \<le> 8"
    using len length_strip_newline [of d] by simp
  have inv: "list_ex nospam_invalid (strip_newline d) \<longrightarrow>
        setnospam env w =
          (case fiforeset (ns_reset env) (slot_dirfd (gslots w ! NOSPAM))
                  (slot_fd (gslots w ! NOSPAM) ! IN) (gfiles ! IN) of
             Inl e \<Rightarrow> Some (Inl e)
           | Inr (fd2, evs2) \<Rightarrow>
               Some (Inr (emit (Dprintf (slot_fd (gslots w ! NOSPAM) ! ERR)
                                  ''Input contains invalid characters ![0-9, A-F]\<newline>'' []
                                # evs2)
                            (set_slot_fd NOSPAM IN fd2 w))))"
    using r assms(2)
    by (simp add: setnospam_def Let_def set_slot_fd_same emit_Nil split: sum.splits prod.splits)
  have val: "\<not> list_ex nospam_invalid (strip_newline d) \<longrightarrow>
        setnospam env w =
          (case datasave (ns_save env) of
             Inl e \<Rightarrow> Some (Inl e)
           | Inr evs \<Rightarrow>
               (case fiforeset (ns_reset env) (slot_dirfd (gslots w ! NOSPAM))
                       (slot_fd (gslots w ! NOSPAM) ! IN) (gfiles ! IN) of
                  Inl e \<Rightarrow> Some (Inl e)
                | Inr (fd2, evs2) \<Rightarrow>
                    Some (Inr (emit
                      ([Tox_self_set_nospam (of_nat (strtoul16 (strip_newline d)))] @ evs
                       @ [Logmsg ''Nospam > %08X\<newline>''
                            [AU32 (of_nat (strtoul16 (strip_newline d)))],
                          Ftruncate (slot_fd (gslots w ! NOSPAM) ! OUT),
                          Lseek (slot_fd (gslots w ! NOSPAM) ! OUT),
                          Dprintf (slot_fd (gslots w ! NOSPAM) ! OUT) ''%08X\<newline>''
                            [AU32 (of_nat (strtoul16 (strip_newline d)))],
                          Tox_self_get_address, Ftruncate (idfd w), Lseek (idfd w)]
                       @ map (\<lambda>b. Dprintf (idfd w) ''%02X'' [AByte b])
                           (take TOX_FRIEND_ADDRESS_SIZE (ns_address env))
                       @ [Dprintf (idfd w) ''\<newline>'' []] @ evs2)
                      (set_slot_fd NOSPAM IN fd2 w)))))"
    using r assms(2)
    by (auto simp: setnospam_def Let_def set_slot_fd_same emit_Nil cstr_valid set_slot_fd_def
        split: sum.splits prod.splits)
  show ?thesis using l inv val nospam_valid_iff id_text_layout length_printf_08X by blast
qed

lemma strtoul16_deadbeef: "strtoul16 ''DEADBEEF'' = 0xDEADBEEF"
  by (simp add: strtoul16_def hexdigit_def)

lemma printf_08X_deadbeef: "printf_08X 0xDEADBEEF = ''DEADBEEF''"
  by (simp add: printf_08X_def hex_def)

lemma id_text_deadbeef:
  "id_text (replicate 32 0x11 @ [0xDE, 0xAD, 0xBE, 0xEF, 0x60, 0x42]) =
     ''1111111111111111111111111111111111111111111111111111111111111111DEADBEEF6042''"
  by code_simp

lemma nospam_field_deadbeef:
  "address_nospam (replicate 32 0x11 @ [0xDE, 0xAD, 0xBE, 0xEF, 0x60, 0x42])
     = [0xDE, 0xAD, 0xBE, 0xEF]"
  by (simp add: address_nospam_def TOX_PUBLIC_KEY_SIZE_def)

lemma nospam_field_text: "concat (map printf_02X [0xDE, 0xAD, 0xBE, 0xEF]) = ''DEADBEEF''"
  by code_simp

theorem setnospam_accepts_witness:
  "fiforead (ns_reads (nospam_env1 ''DEADBEEF\<newline>'' [0xDE, 0xAD, 0xBE, 0xEF, 0x60, 0x42]))
      (ns_reset_eof (nospam_env1 ''DEADBEEF\<newline>'' [0xDE, 0xAD, 0xBE, 0xEF, 0x60, 0x42]))
      (slot_dirfd (gslots world0 ! NOSPAM)) (slot_fd (gslots world0 ! NOSPAM) ! IN) (gfiles ! IN)
      8 = Some (Inr (8, ''DEADBEEF'', 27, [])) \<and>
   \<not> list_ex nospam_invalid (strip_newline ''DEADBEEF'') \<and>
   setnospam (nospam_env1 ''DEADBEEF\<newline>'' [0xDE, 0xAD, 0xBE, 0xEF, 0x60, 0x42]) world0 =
     Some (Inr (world0\<lparr>gslots := slots0[NOSPAM := (slots0 ! NOSPAM)\<lparr>slot_fd := [9, 28, 29]\<rparr>],
       trace := [Tox_self_set_nospam 0xDEADBEEF, Open_savefile, Tox_get_savedata,
                 Write_savefile 20 100, Fsync 20, Close 20,
                 Logmsg ''Nospam > %08X\<newline>'' [AU32 0xDEADBEEF],
                 Ftruncate 28, Lseek 28, Dprintf 28 ''%08X\<newline>'' [AU32 0xDEADBEEF],
                 Tox_self_get_address, Ftruncate 5, Lseek 5]
                @ replicate 32 (Dprintf 5 ''%02X'' [AByte 0x11])
                @ [Dprintf 5 ''%02X'' [AByte 0xDE], Dprintf 5 ''%02X'' [AByte 0xAD],
                   Dprintf 5 ''%02X'' [AByte 0xBE], Dprintf 5 ''%02X'' [AByte 0xEF],
                   Dprintf 5 ''%02X'' [AByte 0x60], Dprintf 5 ''%02X'' [AByte 0x42],
                   Dprintf 5 ''\<newline>'' [], Unlinkat 26 ''in'', Close 27, Mkfifoat 26 ''in'',
                   Openat 26 ''in'' [O_RDONLY, O_NONBLOCK]]\<rparr>)) \<and>
   length (ns_address (nospam_env1 ''DEADBEEF\<newline>'' [0xDE, 0xAD, 0xBE, 0xEF, 0x60, 0x42]))
     = TOX_FRIEND_ADDRESS_SIZE \<and>
   concat (map printf_02X
       (address_nospam (ns_address (nospam_env1 ''DEADBEEF\<newline>'' [0xDE, 0xAD, 0xBE, 0xEF, 0x60, 0x42]))))
     = printf_08X 0xDEADBEEF \<and>
   id_text (ns_address (nospam_env1 ''DEADBEEF\<newline>'' [0xDE, 0xAD, 0xBE, 0xEF, 0x60, 0x42])) =
     ''1111111111111111111111111111111111111111111111111111111111111111DEADBEEF6042'' \<and>
   drop 68 (id_text (ns_address (nospam_env1 ''DEADBEEF\<newline>'' [0xDE, 0xAD, 0xBE, 0xEF, 0x60, 0x42])))
     = ''BEEF6042''"
proof -
  let ?e = "nospam_env1 ''DEADBEEF\<newline>'' [0xDE, 0xAD, 0xBE, 0xEF, 0x60, 0x42]"
  have r: "fiforead (ns_reads ?e) (ns_reset_eof ?e)
      (slot_dirfd (gslots world0 ! NOSPAM)) (slot_fd (gslots world0 ! NOSPAM) ! IN) (gfiles ! IN)
      8 = Some (Inr (8, ''DEADBEEF'', 27, []))"
    by (simp add: nospam_env1_def world0_slots IN_def)
  have s: "strip_newline ''DEADBEEF'' = ''DEADBEEF''"
    by (simp add: strip_newline_def)
  have v: "\<not> list_ex nospam_invalid (strip_newline ''DEADBEEF'')"
    by (simp add: s nospam_invalid_def)
  have e: "ns_reset ?e = reset_ok" "ns_save ?e = save_ok"
    "ns_address ?e = replicate 32 0x11 @ [0xDE, 0xAD, 0xBE, 0xEF, 0x60, 0x42]"
    by (simp_all add: nospam_env1_def)
  have a: "length (ns_address ?e) = TOX_FRIEND_ADDRESS_SIZE"
    by (simp add: e TOX_FRIEND_ADDRESS_SIZE_def TOX_ADDRESS_SIZE_def)
  have n: "concat (map printf_02X (address_nospam (ns_address ?e))) = printf_08X 0xDEADBEEF"
    by (simp only: e nospam_field_deadbeef nospam_field_text printf_08X_deadbeef)
  note t = setnospam_accepts [OF r]
  have "setnospam ?e world0 =
     Some (Inr (world0\<lparr>gslots := slots0[NOSPAM := (slots0 ! NOSPAM)\<lparr>slot_fd := [9, 28, 29]\<rparr>],
       trace := [Tox_self_set_nospam 0xDEADBEEF, Open_savefile, Tox_get_savedata,
                 Write_savefile 20 100, Fsync 20, Close 20,
                 Logmsg ''Nospam > %08X\<newline>'' [AU32 0xDEADBEEF],
                 Ftruncate 28, Lseek 28, Dprintf 28 ''%08X\<newline>'' [AU32 0xDEADBEEF],
                 Tox_self_get_address, Ftruncate 5, Lseek 5]
                @ replicate 32 (Dprintf 5 ''%02X'' [AByte 0x11])
                @ [Dprintf 5 ''%02X'' [AByte 0xDE], Dprintf 5 ''%02X'' [AByte 0xAD],
                   Dprintf 5 ''%02X'' [AByte 0xBE], Dprintf 5 ''%02X'' [AByte 0xEF],
                   Dprintf 5 ''%02X'' [AByte 0x60], Dprintf 5 ''%02X'' [AByte 0x42],
                   Dprintf 5 ''\<newline>'' [], Unlinkat 26 ''in'', Close 27, Mkfifoat 26 ''in'',
                   Openat 26 ''in'' [O_RDONLY, O_NONBLOCK]]\<rparr>))"
    using t v
    by (simp add: s e world0_slots ERR_def IN_def OUT_def emit_def datasave_ok fiforeset_ok
        gfiles_def set_slot_fd_def strtoul16_deadbeef TOX_FRIEND_ADDRESS_SIZE_def
        TOX_ADDRESS_SIZE_def)
       (simp add: world0_def slots0_def NOSPAM_def)
  moreover have "id_text (ns_address ?e) =
      ''1111111111111111111111111111111111111111111111111111111111111111DEADBEEF6042''"
    by (simp only: e id_text_deadbeef)
  moreover from this have "drop 68 (id_text (ns_address ?e)) = ''BEEF6042''"
    by simp
  ultimately show ?thesis
    using r v a n by blast
qed

lemma strtoul16_AB: "strtoul16 ''AB'' = 171"
  by (simp add: strtoul16_def hexdigit_def)

text \<open>
  C7 as stated fails twice. The line \<open>AB\<close> has two characters, not eight, and it is
  accepted: the nospam is set to \<open>0xAB\<close>. And for the line \<open>DEADBEEF\<close>, with
  the transport reporting the address of the public key, the nospam
  \<open>DE AD BE EF\<close> and the checksum \<open>60 42\<close>, the value \<open>DEADBEEF\<close> is written
  to \<open>nospam/out\<close> and the 76 hexadecimal characters written to \<open>id\<close> end in
  \<open>BEEF6042\<close>: the last 8 are not the nospam.
\<close>

theorem setnospam_claim_counterexample:
  "length (strip_newline ''AB\<newline>'') = 2 \<and>
   setnospam (nospam_env1 ''AB\<newline>'' [0x00, 0x00, 0x00, 0xAB, 0x00, 0xAB]) world0 =
     Some (Inr (world0\<lparr>gslots := slots0[NOSPAM := (slots0 ! NOSPAM)\<lparr>slot_fd := [9, 28, 29]\<rparr>],
       trace := [Tox_self_set_nospam 0xAB, Open_savefile, Tox_get_savedata,
                 Write_savefile 20 100, Fsync 20, Close 20,
                 Logmsg ''Nospam > %08X\<newline>'' [AU32 0xAB],
                 Ftruncate 28, Lseek 28, Dprintf 28 ''%08X\<newline>'' [AU32 0xAB],
                 Tox_self_get_address, Ftruncate 5, Lseek 5]
                @ replicate 32 (Dprintf 5 ''%02X'' [AByte 0x11])
                @ [Dprintf 5 ''%02X'' [AByte 0x00], Dprintf 5 ''%02X'' [AByte 0x00],
                   Dprintf 5 ''%02X'' [AByte 0x00], Dprintf 5 ''%02X'' [AByte 0xAB],
                   Dprintf 5 ''%02X'' [AByte 0x00], Dprintf 5 ''%02X'' [AByte 0xAB],
                   Dprintf 5 ''\<newline>'' [], Unlinkat 26 ''in'', Close 27, Mkfifoat 26 ''in'',
                   Openat 26 ''in'' [O_RDONLY, O_NONBLOCK]]\<rparr>)) \<and>
   setnospam (nospam_env1 ''DEADBEEF\<newline>'' [0xDE, 0xAD, 0xBE, 0xEF, 0x60, 0x42]) world0 =
     Some (Inr (world0\<lparr>gslots := slots0[NOSPAM := (slots0 ! NOSPAM)\<lparr>slot_fd := [9, 28, 29]\<rparr>],
       trace := [Tox_self_set_nospam 0xDEADBEEF, Open_savefile, Tox_get_savedata,
                 Write_savefile 20 100, Fsync 20, Close 20,
                 Logmsg ''Nospam > %08X\<newline>'' [AU32 0xDEADBEEF],
                 Ftruncate 28, Lseek 28, Dprintf 28 ''%08X\<newline>'' [AU32 0xDEADBEEF],
                 Tox_self_get_address, Ftruncate 5, Lseek 5]
                @ replicate 32 (Dprintf 5 ''%02X'' [AByte 0x11])
                @ [Dprintf 5 ''%02X'' [AByte 0xDE], Dprintf 5 ''%02X'' [AByte 0xAD],
                   Dprintf 5 ''%02X'' [AByte 0xBE], Dprintf 5 ''%02X'' [AByte 0xEF],
                   Dprintf 5 ''%02X'' [AByte 0x60], Dprintf 5 ''%02X'' [AByte 0x42],
                   Dprintf 5 ''\<newline>'' [], Unlinkat 26 ''in'', Close 27, Mkfifoat 26 ''in'',
                   Openat 26 ''in'' [O_RDONLY, O_NONBLOCK]]\<rparr>)) \<and>
   printf_08X 0xDEADBEEF = ''DEADBEEF'' \<and>
   address_nospam (replicate 32 0x11 @ [0xDE, 0xAD, 0xBE, 0xEF, 0x60, 0x42])
     = [0xDE, 0xAD, 0xBE, 0xEF] \<and>
   id_text (replicate 32 0x11 @ [0xDE, 0xAD, 0xBE, 0xEF, 0x60, 0x42]) =
     ''1111111111111111111111111111111111111111111111111111111111111111DEADBEEF6042'' \<and>
   drop 68 (id_text (replicate 32 0x11 @ [0xDE, 0xAD, 0xBE, 0xEF, 0x60, 0x42])) = ''BEEF6042''"
proof -
  have ab: "setnospam (nospam_env1 ''AB\<newline>'' [0x00, 0x00, 0x00, 0xAB, 0x00, 0xAB]) world0 =
     Some (Inr (world0\<lparr>gslots := slots0[NOSPAM := (slots0 ! NOSPAM)\<lparr>slot_fd := [9, 28, 29]\<rparr>],
       trace := [Tox_self_set_nospam 0xAB, Open_savefile, Tox_get_savedata,
                 Write_savefile 20 100, Fsync 20, Close 20,
                 Logmsg ''Nospam > %08X\<newline>'' [AU32 0xAB],
                 Ftruncate 28, Lseek 28, Dprintf 28 ''%08X\<newline>'' [AU32 0xAB],
                 Tox_self_get_address, Ftruncate 5, Lseek 5]
                @ replicate 32 (Dprintf 5 ''%02X'' [AByte 0x11])
                @ [Dprintf 5 ''%02X'' [AByte 0x00], Dprintf 5 ''%02X'' [AByte 0x00],
                   Dprintf 5 ''%02X'' [AByte 0x00], Dprintf 5 ''%02X'' [AByte 0xAB],
                   Dprintf 5 ''%02X'' [AByte 0x00], Dprintf 5 ''%02X'' [AByte 0xAB],
                   Dprintf 5 ''\<newline>'' [], Unlinkat 26 ''in'', Close 27, Mkfifoat 26 ''in'',
                   Openat 26 ''in'' [O_RDONLY, O_NONBLOCK]]\<rparr>))"
    by (simp add: setnospam_def nospam_env1_def world0_slots Let_def IN_def ERR_def OUT_def
        gfiles_def strip_newline_def cstr_def nospam_invalid_def strtoul16_AB datasave_ok
        fiforeset_ok TOX_FRIEND_ADDRESS_SIZE_def TOX_ADDRESS_SIZE_def emit_def set_slot_fd_def)
      (simp add: world0_def slots0_def NOSPAM_def)
  have db: "setnospam (nospam_env1 ''DEADBEEF\<newline>'' [0xDE, 0xAD, 0xBE, 0xEF, 0x60, 0x42]) world0 =
     Some (Inr (world0\<lparr>gslots := slots0[NOSPAM := (slots0 ! NOSPAM)\<lparr>slot_fd := [9, 28, 29]\<rparr>],
       trace := [Tox_self_set_nospam 0xDEADBEEF, Open_savefile, Tox_get_savedata,
                 Write_savefile 20 100, Fsync 20, Close 20,
                 Logmsg ''Nospam > %08X\<newline>'' [AU32 0xDEADBEEF],
                 Ftruncate 28, Lseek 28, Dprintf 28 ''%08X\<newline>'' [AU32 0xDEADBEEF],
                 Tox_self_get_address, Ftruncate 5, Lseek 5]
                @ replicate 32 (Dprintf 5 ''%02X'' [AByte 0x11])
                @ [Dprintf 5 ''%02X'' [AByte 0xDE], Dprintf 5 ''%02X'' [AByte 0xAD],
                   Dprintf 5 ''%02X'' [AByte 0xBE], Dprintf 5 ''%02X'' [AByte 0xEF],
                   Dprintf 5 ''%02X'' [AByte 0x60], Dprintf 5 ''%02X'' [AByte 0x42],
                   Dprintf 5 ''\<newline>'' [], Unlinkat 26 ''in'', Close 27, Mkfifoat 26 ''in'',
                   Openat 26 ''in'' [O_RDONLY, O_NONBLOCK]]\<rparr>))"
    by (simp add: setnospam_def nospam_env1_def world0_slots Let_def IN_def ERR_def OUT_def
        gfiles_def strip_newline_def cstr_def nospam_invalid_def strtoul16_deadbeef datasave_ok
        fiforeset_ok TOX_FRIEND_ADDRESS_SIZE_def TOX_ADDRESS_SIZE_def emit_def set_slot_fd_def)
      (simp add: world0_def slots0_def NOSPAM_def)
  show ?thesis
    using ab db
    by (simp add: strip_newline_def printf_08X_deadbeef nospam_field_deadbeef id_text_deadbeef)
qed

end
